theory Spec2Isabelle
  imports Complex_Main
begin

section \<open>Numbers\<close>

text \<open>
  The calculators work on JavaScript numbers. Monetary amounts and percentages are
  modelled as exact reals, so rounding of binary floating point is idealised away.
  The one operation of the calculators that can leave the finite numbers is the
  division by the annual revenue in the effective rate: dividing by zero yields
  NaN or an infinity in JavaScript and no exception. That division is modelled with
  its non-finite results written out.
\<close>

datatype jsnum = Finite real | PosInfinity | NegInfinity | NaN

definition js_div :: "real \<Rightarrow> real \<Rightarrow> jsnum" where
  "js_div a b =
     (if b \<noteq> 0 then Finite (a / b)
      else if a > 0 then PosInfinity
      else if a < 0 then NegInfinity
      else NaN)"

definition js_times :: "jsnum \<Rightarrow> real \<Rightarrow> jsnum" where
  "js_times x k =
     (case x of
        Finite a \<Rightarrow> Finite (a * k)
      | PosInfinity \<Rightarrow> (if k > 0 then PosInfinity else if k < 0 then NegInfinity else NaN)
      | NegInfinity \<Rightarrow> (if k > 0 then NegInfinity else if k < 0 then PosInfinity else NaN)
      | NaN \<Rightarrow> NaN)"

text \<open>\<open>x || 0\<close> on a number: zero is the only falsy finite number.\<close>

definition js_or0 :: "real \<Rightarrow> real" where
  "js_or0 x = (if x = 0 then 0 else x)"

section \<open>Data model (types.ts)\<close>

datatype ActivityType =
  COMERCIO | INDUSTRIA | SERVICO_ANEXO_III | SERVICO_ANEXO_IV | SERVICO_ANEXO_V

datatype LineTag =
  RECEITA | DEDUCAO | IMPOSTO_VENDA | IRPJ_CSLL | FOLHA | CUSTO | DESPESA
  | REC_FIN | DESP_FIN | OUTROS | IGNORE

datatype LineType = ANALYTICAL | SYNTHETIC

datatype LalurAdjustment = ADDITION | EXCLUSION

datatype StatementSection = DRE | BALANCO | EBITDA

text \<open>
  A ledger row. The source fields \<open>value\<close> and \<open>section\<close> are named \<open>lineValue\<close> and
  \<open>lineSection\<close> here; an optional field is an \<open>option\<close>, and the \<open>null\<close> of
  \<open>lalurAdjustment\<close> is \<open>None\<close> as well.
\<close>

record DRELineItem =
  description :: string
  lineValue :: real
  isTotal :: bool
  lineSection :: StatementSection
  level :: nat
  tag :: "LineTag option"
  lineType :: LineType
  useForCredit :: "bool option"
  reformCreditRate :: "real option"
  lalurAdjustment :: "LalurAdjustment option"

text \<open>
  The financial summary. The fields \<open>originalLines\<close> and \<open>composition\<close> of the source
  are display data that no calculator reads; they are left to the record's extension.
\<close>

record FinancialData =
  revenueAnnual :: real
  revenueCurrent :: real
  deductions :: real
  taxesOnSales :: real
  taxesIncome :: real
  payrollBase :: real
  expenses :: real
  financialRevenues :: real
  financialExpenses :: real
  cogs :: real
  reportedProfitBeforeTax :: real
  realCreditBase :: "real option"

record TaxRateConfig =
  pis :: real
  cofins :: real
  irpj :: real
  irpjAdicional :: real
  csll :: real
  ipi :: real
  iss :: real
  icms :: real
  rat :: real
  cpp :: real
  inssTerceiros :: real
  fgts :: real
  presuncaoIRPJ :: real
  presuncaoCSLL :: real
  pisFinancial :: real
  cofinsFinancial :: real

record ReformConfig =
  ibsRate :: real
  cbsRate :: real
  selectiveTaxRate :: real
  standardCreditRate :: real

record TaxBreakdown =
  taxSales :: real
  taxIncome :: real
  taxPayroll :: real
  charges :: real

text \<open>
  The per-tax amounts. The field names of the source coincide with those of the rate
  configuration, so they carry the prefix \<open>det_\<close> here.
\<close>

record TaxDetailedBreakdown =
  det_pis :: real
  det_cofins :: real
  det_irpj :: real
  det_irpjAdicional :: real
  det_csll :: real
  det_ipi :: real
  det_iss :: real
  det_icms :: real
  det_rat :: real
  det_cpp :: real
  det_inssTerceiros :: real
  det_fgts :: real
  det_simplesDAS :: real
  det_pisFinancial :: real
  det_cofinsFinancial :: real
  det_ibs :: "real option"
  det_cbs :: "real option"
  det_selectiveTax :: "real option"

datatype Regime = SimplesNacional | LucroPresumido | LucroReal | ReformaTributaria

text \<open>
  The notes of a result are template strings around amounts formatted as currency.
  Each constructor stands for one template of the source and carries the amounts
  that the template formats.
\<close>

datatype Note =
  NoteExcedeLimite real real
  | NoteFatorR
  | NotePrejuizoFiscal
  | NoteAdicoesLALUR real
  | NoteExclusoesLALUR real

text \<open>
  A simulation result. The fields \<open>notes\<close> (here \<open>resultNotes\<close>) and
  \<open>isBlocked\<close> are optional in the source and a calculator that leaves one out
  yields \<open>None\<close>. The \<open>details\<close> list of display labels repeats amounts of the
  other fields and is left out.
\<close>

record TaxSimulationResult =
  regime :: Regime
  totalTax :: real
  effectiveRate :: jsnum
  breakdown :: TaxBreakdown
  detailed :: TaxDetailedBreakdown
  resultNotes :: "Note list option"
  isBlocked :: "bool option"

record ReformSimulationResult = TaxSimulationResult +
  totalCredits :: real
  debitIBS :: real
  debitCBS :: real
  creditIBS :: real
  creditCBS :: real

record SimplesTableRange =
  limit :: real
  aliquota :: real
  deducao :: real

record SimplesAnnex =
  annexName :: string
  ranges :: "SimplesTableRange list"

section \<open>Rate tables (simplesTables.ts)\<close>

definition SIMPLES_LIMIT :: real where
  "SIMPLES_LIMIT = 4800000"

definition ANEXO_I :: SimplesAnnex where
  "ANEXO_I = \<lparr> annexName = ''Anexo I - Comercio'', ranges = [
     \<lparr> limit = 180000, aliquota = 4.0, deducao = 0 \<rparr>,
     \<lparr> limit = 360000, aliquota = 7.3, deducao = 5940 \<rparr>,
     \<lparr> limit = 720000, aliquota = 9.5, deducao = 13860 \<rparr>,
     \<lparr> limit = 1800000, aliquota = 10.7, deducao = 22500 \<rparr>,
     \<lparr> limit = 3600000, aliquota = 14.3, deducao = 87300 \<rparr>,
     \<lparr> limit = 4800000, aliquota = 19.0, deducao = 378000 \<rparr> ] \<rparr>"

definition ANEXO_II :: SimplesAnnex where
  "ANEXO_II = \<lparr> annexName = ''Anexo II - Industria'', ranges = [
     \<lparr> limit = 180000, aliquota = 4.5, deducao = 0 \<rparr>,
     \<lparr> limit = 360000, aliquota = 7.8, deducao = 5940 \<rparr>,
     \<lparr> limit = 720000, aliquota = 10.0, deducao = 13860 \<rparr>,
     \<lparr> limit = 1800000, aliquota = 11.2, deducao = 22500 \<rparr>,
     \<lparr> limit = 3600000, aliquota = 14.7, deducao = 85500 \<rparr>,
     \<lparr> limit = 4800000, aliquota = 30.0, deducao = 720000 \<rparr> ] \<rparr>"

definition ANEXO_III :: SimplesAnnex where
  "ANEXO_III = \<lparr> annexName = ''Anexo III - Servicos (Geral)'', ranges = [
     \<lparr> limit = 180000, aliquota = 6.0, deducao = 0 \<rparr>,
     \<lparr> limit = 360000, aliquota = 11.2, deducao = 9360 \<rparr>,
     \<lparr> limit = 720000, aliquota = 13.5, deducao = 17640 \<rparr>,
     \<lparr> limit = 1800000, aliquota = 16.0, deducao = 35640 \<rparr>,
     \<lparr> limit = 3600000, aliquota = 21.0, deducao = 125640 \<rparr>,
     \<lparr> limit = 4800000, aliquota = 33.0, deducao = 648000 \<rparr> ] \<rparr>"

definition ANEXO_IV :: SimplesAnnex where
  "ANEXO_IV = \<lparr> annexName = ''Anexo IV - Servicos (Limpeza, Advocacia, Obras)'', ranges = [
     \<lparr> limit = 180000, aliquota = 4.5, deducao = 0 \<rparr>,
     \<lparr> limit = 360000, aliquota = 9.0, deducao = 8100 \<rparr>,
     \<lparr> limit = 720000, aliquota = 10.2, deducao = 12420 \<rparr>,
     \<lparr> limit = 1800000, aliquota = 14.0, deducao = 39780 \<rparr>,
     \<lparr> limit = 3600000, aliquota = 22.0, deducao = 183780 \<rparr>,
     \<lparr> limit = 4800000, aliquota = 33.0, deducao = 828000 \<rparr> ] \<rparr>"

definition ANEXO_V :: SimplesAnnex where
  "ANEXO_V = \<lparr> annexName = ''Anexo V - Servicos (Intelectuais, Tecnologia)'', ranges = [
     \<lparr> limit = 180000, aliquota = 15.5, deducao = 0 \<rparr>,
     \<lparr> limit = 360000, aliquota = 18.0, deducao = 4500 \<rparr>,
     \<lparr> limit = 720000, aliquota = 19.5, deducao = 9900 \<rparr>,
     \<lparr> limit = 1800000, aliquota = 20.5, deducao = 17100 \<rparr>,
     \<lparr> limit = 3600000, aliquota = 23.0, deducao = 62100 \<rparr>,
     \<lparr> limit = 4800000, aliquota = 30.5, deducao = 540000 \<rparr> ] \<rparr>"

definition ALL_ANEXOS :: "SimplesAnnex list" where
  "ALL_ANEXOS = [ANEXO_I, ANEXO_II, ANEXO_III, ANEXO_IV, ANEXO_V]"

section \<open>Simples Nacional (calculations.ts, calculateSimples)\<close>

definition emptyDetailed :: TaxDetailedBreakdown where
  "emptyDetailed = \<lparr> det_pis = 0, det_cofins = 0, det_irpj = 0, det_irpjAdicional = 0,
     det_csll = 0, det_ipi = 0, det_iss = 0, det_icms = 0, det_rat = 0, det_cpp = 0,
     det_inssTerceiros = 0, det_fgts = 0, det_simplesDAS = 0, det_pisFinancial = 0,
     det_cofinsFinancial = 0, det_ibs = None, det_cbs = None, det_selectiveTax = None \<rparr>"

definition CHARGES_LABOR_ONLY_PCT :: real where
  "CHARGES_LABOR_ONLY_PCT = 0.1911"

text \<open>
  The \<open>switch\<close> on the activity: it yields the pair of \<open>factorR\<close> and \<open>annex\<close>, both
  initialised before the switch (\<open>factorR = 0\<close>, \<open>annex = ANEXO_III\<close>).
\<close>

definition selectAnnex ::
  "'a FinancialData_scheme \<Rightarrow> ActivityType \<Rightarrow> real \<times> SimplesAnnex" where
  "selectAnnex data activity =
     (let payrollTotalEst = payrollBase data * (1 + CHARGES_LABOR_ONLY_PCT) in
      case activity of
        COMERCIO \<Rightarrow> (0, ANEXO_I)
      | INDUSTRIA \<Rightarrow> (0, ANEXO_II)
      | SERVICO_ANEXO_III \<Rightarrow> (0, ANEXO_III)
      | SERVICO_ANEXO_IV \<Rightarrow> (0, ANEXO_IV)
      | SERVICO_ANEXO_V \<Rightarrow>
          (let factorR = (if revenueAnnual data > 0
                          then payrollTotalEst / revenueAnnual data else 0)
           in (factorR, if factorR \<ge> 0.28 then ANEXO_III else ANEXO_V)))"

text \<open>
  \<open>annex.ranges.find(r => rbt12 <= r.limit) || annex.ranges[annex.ranges.length - 1]\<close>:
  the first bracket whose limit is at least the revenue, else the last bracket. The
  annex is always one of the five tables above, none of which is empty, so the
  fallback never reads outside the list.
\<close>

definition findRange :: "SimplesAnnex \<Rightarrow> real \<Rightarrow> SimplesTableRange" where
  "findRange annex rbt12 =
     (case find (\<lambda>r. rbt12 \<le> limit r) (ranges annex) of
        Some r \<Rightarrow> r
      | None \<Rightarrow> last (ranges annex))"

definition blockedSimples :: "'a FinancialData_scheme \<Rightarrow> TaxSimulationResult" where
  "blockedSimples data =
     \<lparr> regime = SimplesNacional,
       totalTax = 0,
       effectiveRate = Finite 0,
       breakdown = \<lparr> taxSales = 0, taxIncome = 0, taxPayroll = 0, charges = 0 \<rparr>,
       detailed = emptyDetailed,
       resultNotes = Some [NoteExcedeLimite (revenueAnnual data) SIMPLES_LIMIT],
       isBlocked = Some True \<rparr>"

definition calculateSimples ::
  "'a FinancialData_scheme \<Rightarrow> ActivityType \<Rightarrow> TaxSimulationResult" where
  "calculateSimples data activity =
     (if revenueAnnual data > SIMPLES_LIMIT then blockedSimples data
      else
        let (factorR, annex) = selectAnnex data activity;
            rbt12 = revenueAnnual data;
            range = findRange annex rbt12;
            nominalRate = (if rbt12 > 0
                           then ((rbt12 * (aliquota range / 100)) - deducao range) / rbt12
                           else 0);
            dasTax = revenueAnnual data * nominalRate;
            fgtsAmount = payrollBase data * 0.08;
            cppAmount = (if activity = SERVICO_ANEXO_IV then payrollBase data * 0.278 else 0)
        in
        \<lparr> regime = SimplesNacional,
          totalTax = dasTax + cppAmount + fgtsAmount,
          effectiveRate = js_times (js_div (dasTax + cppAmount + fgtsAmount) (revenueAnnual data)) 100,
          breakdown = \<lparr> taxSales = dasTax, taxIncome = 0, taxPayroll = cppAmount,
                        charges = fgtsAmount + cppAmount \<rparr>,
          detailed = emptyDetailed \<lparr> det_simplesDAS := dasTax, det_cpp := cppAmount,
                                     det_fgts := fgtsAmount \<rparr>,
          resultNotes = Some (if factorR \<ge> 0.28 \<and> activity = SERVICO_ANEXO_V
                        then [NoteFatorR] else []),
          isBlocked = None \<rparr>)"

section \<open>Lucro Presumido (calculations.ts, calculatePresumido)\<close>

definition THRESHOLD_ADICIONAL_IRPJ :: real where
  "THRESHOLD_ADICIONAL_IRPJ = 240000"

text \<open>
  The body of \<open>calculatePresumido\<close> as one chain of its constants, in the order of the
  source. The record of locals keeps the two bases, which the result does not carry.
\<close>

record PresumidoLocals =
  p_baseIRPJ :: real
  p_baseCSLL :: real
  p_result :: TaxSimulationResult

definition presumidoBody ::
  "'a FinancialData_scheme \<Rightarrow> ActivityType \<Rightarrow> 'b TaxRateConfig_scheme \<Rightarrow> PresumidoLocals" where
  "presumidoBody data activity config =
     (let fgtsRate = fgts config / 100;
          cppVal = payrollBase data * (cpp config / 100);
          ratVal = payrollBase data * (rat config / 100);
          terceirosVal = payrollBase data * (inssTerceiros config / 100);
          fgtsVal = payrollBase data * fgtsRate;
          cppAmount = cppVal + ratVal + terceirosVal;
          chargesAmount = cppAmount + fgtsVal;
          isComercioIndustria = (activity = COMERCIO \<or> activity = INDUSTRIA);
          calculationBase = revenueAnnual data;
          percentualPresuncaoIRPJ = presuncaoIRPJ config / 100;
          percentualPresuncaoCSLL = presuncaoCSLL config / 100;
          baseIRPJ = (calculationBase * percentualPresuncaoIRPJ) + financialRevenues data;
          baseCSLL = (calculationBase * percentualPresuncaoCSLL) + financialRevenues data;
          irpjBasico = baseIRPJ * (irpj config / 100);
          irpjAdic = max 0 (baseIRPJ - THRESHOLD_ADICIONAL_IRPJ) * (irpjAdicional config / 100);
          totalIRPJ = irpjBasico + irpjAdic;
          totalCSLL = baseCSLL * (csll config / 100);
          pisV = calculationBase * (pis config / 100);
          cofinsV = calculationBase * (cofins config / 100);
          ipiV = calculationBase * (ipi config / 100);
          issV = (if \<not> isComercioIndustria then calculationBase * (iss config / 100) else 0);
          icmsV = (if isComercioIndustria then calculationBase * (icms config / 100) else 0);
          totalSalesTax = pisV + cofinsV + issV + icmsV + ipiV;
          total = totalIRPJ + totalCSLL + totalSalesTax + cppAmount + fgtsVal
      in
      \<lparr> p_baseIRPJ = baseIRPJ,
        p_baseCSLL = baseCSLL,
        p_result =
          \<lparr> regime = LucroPresumido,
            totalTax = total,
            effectiveRate = js_times (js_div total (revenueAnnual data)) 100,
            breakdown = \<lparr> taxSales = totalSalesTax, taxIncome = totalIRPJ + totalCSLL,
                          taxPayroll = cppAmount, charges = chargesAmount \<rparr>,
            detailed = \<lparr> det_pis = pisV, det_cofins = cofinsV, det_irpj = irpjBasico,
                         det_irpjAdicional = irpjAdic, det_csll = totalCSLL, det_ipi = ipiV,
                         det_iss = issV, det_icms = icmsV, det_rat = ratVal, det_cpp = cppVal,
                         det_inssTerceiros = terceirosVal, det_fgts = fgtsVal,
                         det_simplesDAS = 0, det_pisFinancial = 0, det_cofinsFinancial = 0,
                         det_ibs = None, det_cbs = None, det_selectiveTax = None \<rparr>,
            resultNotes = None,
            isBlocked = None \<rparr> \<rparr>)"

definition calculatePresumido ::
  "'a FinancialData_scheme \<Rightarrow> ActivityType \<Rightarrow> 'b TaxRateConfig_scheme \<Rightarrow> TaxSimulationResult" where
  "calculatePresumido data activity config = p_result (presumidoBody data activity config)"

section \<open>Lucro Real (calculations.ts, calculateReal)\<close>

record LalurTotals =
  additions :: real
  exclusions :: real

text \<open>
  The body of \<open>calculateReal\<close> as one chain of its constants, in the order of the
  source. The record of locals keeps the intermediate amounts of the credit netting
  and of the profit derivation, which the result does not carry.
\<close>

record RealLocals =
  r_revenueBase :: real
  r_debitoPis :: real
  r_debitoCofins :: real
  r_creditBase :: real
  r_creditoPis :: real
  r_creditoCofins :: real
  r_pisPayable :: real
  r_cofinsPayable :: real
  r_totalFinancialTaxes :: real
  r_totalSalesTax :: real
  r_netRevenue :: real
  r_totalDeductibleExpenses :: real
  r_operationalResult :: real
  r_financialResult :: real
  r_profitBeforeTax :: real
  r_taxableIncome :: real
  r_result :: TaxSimulationResult

definition realBody ::
  "'a FinancialData_scheme \<Rightarrow> ActivityType \<Rightarrow> 'b TaxRateConfig_scheme \<Rightarrow> 'c LalurTotals_scheme
     \<Rightarrow> RealLocals" where
  "realBody data activity config lalurAdjustments =
     (let isComercioIndustria = (activity = COMERCIO \<or> activity = INDUSTRIA);
          fgtsRate = fgts config / 100;
          cppVal = payrollBase data * (cpp config / 100);
          ratVal = payrollBase data * (rat config / 100);
          terceirosVal = payrollBase data * (inssTerceiros config / 100);
          fgtsVal = payrollBase data * fgtsRate;
          cppAmount = cppVal + ratVal + terceirosVal;
          chargesAmount = cppAmount + fgtsVal;
          pisRate = pis config / 100;
          cofinsRate = cofins config / 100;
          revenueBase = max 0 (revenueAnnual data - deductions data);
          debitoPis = revenueBase * pisRate;
          debitoCofins = revenueBase * cofinsRate;
          creditBase = (case realCreditBase data of
                          Some b \<Rightarrow> b
                        | None \<Rightarrow> (if isComercioIndustria then cogs data
                                   else expenses data * 0.20));
          creditoPis = creditBase * pisRate;
          creditoCofins = creditBase * cofinsRate;
          pisPayable = max 0 (debitoPis - creditoPis);
          cofinsPayable = max 0 (debitoCofins - creditoCofins);
          pisFinRate = js_or0 (pisFinancial config) / 100;
          cofinsFinRate = js_or0 (cofinsFinancial config) / 100;
          pisFin = financialRevenues data * pisFinRate;
          cofinsFin = financialRevenues data * cofinsFinRate;
          totalFinancialTaxes = pisFin + cofinsFin;
          ipiV = revenueAnnual data * (ipi config / 100);
          issV = (if \<not> isComercioIndustria then revenueAnnual data * (iss config / 100) else 0);
          icmsV = (if isComercioIndustria then revenueAnnual data * (icms config / 100) else 0);
          totalSalesTax = pisPayable + cofinsPayable + issV + icmsV + ipiV;
          netRevenue = revenueAnnual data - deductions data - totalSalesTax;
          totalDeductibleExpenses = cogs data + expenses data + payrollBase data + chargesAmount;
          operationalResult = netRevenue - totalDeductibleExpenses;
          financialResult = financialRevenues data - totalFinancialTaxes - financialExpenses data;
          profitBeforeTax = operationalResult + financialResult;
          taxableIncome = max 0 (profitBeforeTax + additions lalurAdjustments
                                   - exclusions lalurAdjustments);
          irpjBasico = taxableIncome * (irpj config / 100);
          irpjAdic = max 0 (taxableIncome - THRESHOLD_ADICIONAL_IRPJ) * (irpjAdicional config / 100);
          totalIRPJ = irpjBasico + irpjAdic;
          totalCSLL = taxableIncome * (csll config / 100);
          total = totalIRPJ + totalCSLL + totalSalesTax + totalFinancialTaxes + cppAmount + fgtsVal
      in
      \<lparr> r_revenueBase = revenueBase,
        r_debitoPis = debitoPis,
        r_debitoCofins = debitoCofins,
        r_creditBase = creditBase,
        r_creditoPis = creditoPis,
        r_creditoCofins = creditoCofins,
        r_pisPayable = pisPayable,
        r_cofinsPayable = cofinsPayable,
        r_totalFinancialTaxes = totalFinancialTaxes,
        r_totalSalesTax = totalSalesTax,
        r_netRevenue = netRevenue,
        r_totalDeductibleExpenses = totalDeductibleExpenses,
        r_operationalResult = operationalResult,
        r_financialResult = financialResult,
        r_profitBeforeTax = profitBeforeTax,
        r_taxableIncome = taxableIncome,
        r_result =
          \<lparr> regime = LucroReal,
            totalTax = total,
            effectiveRate = js_times (js_div total (revenueAnnual data)) 100,
            breakdown = \<lparr> taxSales = totalSalesTax, taxIncome = totalIRPJ + totalCSLL,
                          taxPayroll = cppAmount, charges = chargesAmount \<rparr>,
            detailed = \<lparr> det_pis = pisPayable, det_cofins = cofinsPayable,
                         det_irpj = irpjBasico, det_irpjAdicional = irpjAdic,
                         det_csll = totalCSLL, det_ipi = ipiV, det_iss = issV, det_icms = icmsV,
                         det_rat = ratVal, det_cpp = cppVal, det_inssTerceiros = terceirosVal,
                         det_fgts = fgtsVal, det_simplesDAS = 0, det_pisFinancial = pisFin,
                         det_cofinsFinancial = cofinsFin,
                         det_ibs = None, det_cbs = None, det_selectiveTax = None \<rparr>,
            resultNotes = Some (
              (if taxableIncome \<le> 0 then [NotePrejuizoFiscal] else [])
              @ (if additions lalurAdjustments > 0
                 then [NoteAdicoesLALUR (additions lalurAdjustments)] else [])
              @ (if exclusions lalurAdjustments > 0
                 then [NoteExclusoesLALUR (exclusions lalurAdjustments)] else [])),
            isBlocked = None \<rparr> \<rparr>)"

definition calculateReal ::
  "'a FinancialData_scheme \<Rightarrow> ActivityType \<Rightarrow> 'b TaxRateConfig_scheme \<Rightarrow> 'c LalurTotals_scheme
     \<Rightarrow> TaxSimulationResult" where
  "calculateReal data activity config lalurAdjustments =
     r_result (realBody data activity config lalurAdjustments)"

section \<open>Reforma Tributaria (calculations.ts, calculateReform)\<close>

text \<open>
  One round of the \<open>forEach\<close> over the lines: the state is the pair of the two
  running credits \<open>ibsCredit\<close> and \<open>cbsCredit\<close>.
\<close>

definition creditStep ::
  "'a ReformConfig_scheme \<Rightarrow> real \<times> real \<Rightarrow> 'b DRELineItem_scheme \<Rightarrow> real \<times> real" where
  "creditStep reformConfig acc line =
     (case acc of (ibsCredit, cbsCredit) \<Rightarrow>
        if lineType line = ANALYTICAL \<and> (tag line = Some CUSTO \<or> tag line = Some DESPESA)
        then
          let creditRate = (case reformCreditRate line of Some r \<Rightarrow> r | None \<Rightarrow> 0) in
          if creditRate > 0
          then
            let eligibleBase = \<bar>lineValue line\<bar> * (creditRate / 100) in
            (ibsCredit + eligibleBase * (ibsRate reformConfig / 100),
             cbsCredit + eligibleBase * (cbsRate reformConfig / 100))
          else (ibsCredit, cbsCredit)
        else (ibsCredit, cbsCredit))"

definition calculateReform ::
  "'a FinancialData_scheme \<Rightarrow> 'b DRELineItem_scheme list \<Rightarrow> 'c ReformConfig_scheme
     \<Rightarrow> 'd TaxSimulationResult_scheme \<Rightarrow> ReformSimulationResult" where
  "calculateReform data displayLines reformConfig currentBestScenario =
     (let revenueBase = max 0 (revenueAnnual data - deductions data);
          ibsDebit = revenueBase * (ibsRate reformConfig / 100);
          cbsDebit = revenueBase * (cbsRate reformConfig / 100);
          selectiveTax = revenueBase * (selectiveTaxRate reformConfig / 100);
          (ibsCredit, cbsCredit) = foldl (creditStep reformConfig) (0, 0) displayLines;
          ibsPayable = max 0 (ibsDebit - ibsCredit);
          cbsPayable = max 0 (cbsDebit - cbsCredit);
          totalIVA = ibsPayable + cbsPayable + selectiveTax;
          taxIncomeV = taxIncome (breakdown currentBestScenario);
          taxPayrollV = taxPayroll (breakdown currentBestScenario);
          chargesV = charges (breakdown currentBestScenario);
          total = totalIVA + taxIncomeV + taxPayrollV + chargesV
      in
      \<lparr> regime = ReformaTributaria,
        totalTax = total,
        effectiveRate = js_times (js_div total (revenueAnnual data)) 100,
        breakdown = \<lparr> taxSales = totalIVA, taxIncome = taxIncomeV,
                      taxPayroll = taxPayrollV, charges = chargesV \<rparr>,
        detailed = emptyDetailed \<lparr> det_ibs := Some ibsPayable, det_cbs := Some cbsPayable,
                                   det_selectiveTax := Some selectiveTax \<rparr>,
        resultNotes = None,
        isBlocked = None,
        totalCredits = ibsCredit + cbsCredit,
        debitIBS = ibsDebit,
        debitCBS = cbsDebit,
        creditIBS = ibsCredit,
        creditCBS = cbsCredit \<rparr>)"

section \<open>Dashboard pipeline (Dashboard.tsx, results)\<close>

definition DEFAULT_PRESUMIDO_CONFIG :: TaxRateConfig where
  "DEFAULT_PRESUMIDO_CONFIG =
     \<lparr> pis = 0.65, cofins = 3.00, irpj = 15.00, irpjAdicional = 10.00, csll = 9.00,
       ipi = 0.00, iss = 5.00, icms = 18.00, rat = 2.00, cpp = 20.00, inssTerceiros = 5.80,
       fgts = 8.00, presuncaoIRPJ = 32.00, presuncaoCSLL = 32.00,
       pisFinancial = 0, cofinsFinancial = 0 \<rparr>"

definition DEFAULT_REAL_CONFIG :: TaxRateConfig where
  "DEFAULT_REAL_CONFIG =
     \<lparr> pis = 1.65, cofins = 7.60, irpj = 15.00, irpjAdicional = 10.00, csll = 9.00,
       ipi = 0.00, iss = 5.00, icms = 18.00, rat = 2.00, cpp = 20.00, inssTerceiros = 5.80,
       fgts = 8.00, presuncaoIRPJ = 0, presuncaoCSLL = 0,
       pisFinancial = 0.65, cofinsFinancial = 4.00 \<rparr>"

definition DEFAULT_REFORM_CONFIG :: ReformConfig where
  "DEFAULT_REFORM_CONFIG =
     \<lparr> ibsRate = 17.5, cbsRate = 9.0, selectiveTaxRate = 0, standardCreditRate = 100 \<rparr>"

text \<open>
  The \<open>reduce\<close> that totals the flagged lines: one round adds the absolute value of the
  line to the total of its flag.
\<close>

definition lalurStep :: "LalurTotals \<Rightarrow> 'a DRELineItem_scheme \<Rightarrow> LalurTotals" where
  "lalurStep acc cur =
     (let acc1 = (if lalurAdjustment cur = Some ADDITION
                  then acc \<lparr> additions := additions acc + \<bar>lineValue cur\<bar> \<rparr> else acc);
          acc2 = (if lalurAdjustment cur = Some EXCLUSION
                  then acc1 \<lparr> exclusions := exclusions acc1 + \<bar>lineValue cur\<bar> \<rparr> else acc1)
      in acc2)"

definition lalurAdjustmentsOf :: "'a DRELineItem_scheme list \<Rightarrow> LalurTotals" where
  "lalurAdjustmentsOf displayLines =
     foldl lalurStep \<lparr> additions = 0, exclusions = 0 \<rparr>
       (filter (\<lambda>l. lineType l = ANALYTICAL \<and> lalurAdjustment l \<noteq> None) displayLines)"

text \<open>
  \<open>[simples, presumido, real].filter(r => !r.isBlocked)\<close>: a result that leaves
  \<open>isBlocked\<close> out is not blocked.
\<close>

definition allCurrentOf ::
  "TaxSimulationResult \<Rightarrow> TaxSimulationResult \<Rightarrow> TaxSimulationResult \<Rightarrow> TaxSimulationResult list" where
  "allCurrentOf simples presumido realR =
     filter (\<lambda>r. \<not> (isBlocked r = Some True)) [simples, presumido, realR]"

text \<open>The callback of the \<open>reduce\<close> that picks the baseline.\<close>

definition pickLower :: "TaxSimulationResult \<Rightarrow> TaxSimulationResult \<Rightarrow> TaxSimulationResult" where
  "pickLower prev cur = (if totalTax prev < totalTax cur then prev else cur)"

text \<open>
  \<open>allCurrent.length > 0 ? allCurrent.reduce(...) : real\<close>. A \<open>reduce\<close> without an
  initial value starts from the first element and folds over the rest.
\<close>

definition bestCurrentOf ::
  "TaxSimulationResult \<Rightarrow> TaxSimulationResult \<Rightarrow> TaxSimulationResult \<Rightarrow> TaxSimulationResult" where
  "bestCurrentOf simples presumido realR =
     (case allCurrentOf simples presumido realR of
        x # rest \<Rightarrow> foldl pickLower x rest
      | [] \<Rightarrow> realR)"

record DashboardResults =
  res_simples :: TaxSimulationResult
  res_presumido :: TaxSimulationResult
  res_real :: TaxSimulationResult
  res_reform :: ReformSimulationResult
  res_allCurrent :: "TaxSimulationResult list"
  res_bestCurrent :: TaxSimulationResult
  res_lalurAdjustments :: LalurTotals

definition results ::
  "'a FinancialData_scheme \<Rightarrow> ActivityType \<Rightarrow> 'b TaxRateConfig_scheme \<Rightarrow> 'c TaxRateConfig_scheme
     \<Rightarrow> 'd ReformConfig_scheme \<Rightarrow> 'e DRELineItem_scheme list \<Rightarrow> DashboardResults" where
  "results editableData activityType presumidoConfig realConfig reformConfig displayLines =
     (let lalurAdjustments = lalurAdjustmentsOf displayLines;
          simples = calculateSimples editableData activityType;
          presumido = calculatePresumido editableData activityType presumidoConfig;
          realR = calculateReal editableData activityType realConfig lalurAdjustments;
          allCurrent = allCurrentOf simples presumido realR;
          bestCurrent = bestCurrentOf simples presumido realR;
          reform = calculateReform editableData displayLines reformConfig bestCurrent
      in
      \<lparr> res_simples = simples, res_presumido = presumido, res_real = realR,
        res_reform = reform, res_allCurrent = allCurrent, res_bestCurrent = bestCurrent,
        res_lalurAdjustments = lalurAdjustments \<rparr>)"

section \<open>Eligible amount of a line, after the specification\<close>

text \<open>
  The eligible amount of a line in the words of the specification (section 4.7): for an
  ANALYTICAL line tagged COST or EXPENSE whose credit percentage \<open>p\<close> is greater than
  zero it is the absolute value of the line times \<open>p / 100\<close>; any other line has none.
\<close>

definition specEligibleAmount :: "'a DRELineItem_scheme \<Rightarrow> real" where
  "specEligibleAmount line =
     (case reformCreditRate line of
        None \<Rightarrow> 0
      | Some p \<Rightarrow>
          if lineType line = ANALYTICAL \<and> (tag line = Some CUSTO \<or> tag line = Some DESPESA)
             \<and> p > 0
          then \<bar>lineValue line\<bar> * (p / 100)
          else 0)"

section \<open>Rate fields of a configuration\<close>

text \<open>
  The vocabulary of the monotonicity property: the sixteen rate fields of a
  \<open>TaxRateConfig\<close>, reading one of them and replacing one of them while the others stay
  as they are.
\<close>

datatype RateField =
  F_pis | F_cofins | F_irpj | F_irpjAdicional | F_csll | F_ipi | F_iss | F_icms | F_rat
  | F_cpp | F_inssTerceiros | F_fgts | F_presuncaoIRPJ | F_presuncaoCSLL | F_pisFinancial
  | F_cofinsFinancial

fun getRate :: "RateField \<Rightarrow> TaxRateConfig \<Rightarrow> real" where
  "getRate F_pis c = pis c"
| "getRate F_cofins c = cofins c"
| "getRate F_irpj c = irpj c"
| "getRate F_irpjAdicional c = irpjAdicional c"
| "getRate F_csll c = csll c"
| "getRate F_ipi c = ipi c"
| "getRate F_iss c = iss c"
| "getRate F_icms c = icms c"
| "getRate F_rat c = rat c"
| "getRate F_cpp c = cpp c"
| "getRate F_inssTerceiros c = inssTerceiros c"
| "getRate F_fgts c = fgts c"
| "getRate F_presuncaoIRPJ c = presuncaoIRPJ c"
| "getRate F_presuncaoCSLL c = presuncaoCSLL c"
| "getRate F_pisFinancial c = pisFinancial c"
| "getRate F_cofinsFinancial c = cofinsFinancial c"

fun setRate :: "RateField \<Rightarrow> real \<Rightarrow> TaxRateConfig \<Rightarrow> TaxRateConfig" where
  "setRate F_pis v c = c \<lparr> pis := v \<rparr>"
| "setRate F_cofins v c = c \<lparr> cofins := v \<rparr>"
| "setRate F_irpj v c = c \<lparr> irpj := v \<rparr>"
| "setRate F_irpjAdicional v c = c \<lparr> irpjAdicional := v \<rparr>"
| "setRate F_csll v c = c \<lparr> csll := v \<rparr>"
| "setRate F_ipi v c = c \<lparr> ipi := v \<rparr>"
| "setRate F_iss v c = c \<lparr> iss := v \<rparr>"
| "setRate F_icms v c = c \<lparr> icms := v \<rparr>"
| "setRate F_rat v c = c \<lparr> rat := v \<rparr>"
| "setRate F_cpp v c = c \<lparr> cpp := v \<rparr>"
| "setRate F_inssTerceiros v c = c \<lparr> inssTerceiros := v \<rparr>"
| "setRate F_fgts v c = c \<lparr> fgts := v \<rparr>"
| "setRate F_presuncaoIRPJ v c = c \<lparr> presuncaoIRPJ := v \<rparr>"
| "setRate F_presuncaoCSLL v c = c \<lparr> presuncaoCSLL := v \<rparr>"
| "setRate F_pisFinancial v c = c \<lparr> pisFinancial := v \<rparr>"
| "setRate F_cofinsFinancial v c = c \<lparr> cofinsFinancial := v \<rparr>"

definition ratesLe :: "'a TaxRateConfig_scheme \<Rightarrow> 'b TaxRateConfig_scheme \<Rightarrow> bool" where
  "ratesLe c1 c2 \<longleftrightarrow>
     pis c1 \<le> pis c2 \<and> cofins c1 \<le> cofins c2 \<and> irpj c1 \<le> irpj c2
     \<and> irpjAdicional c1 \<le> irpjAdicional c2 \<and> csll c1 \<le> csll c2 \<and> ipi c1 \<le> ipi c2
     \<and> iss c1 \<le> iss c2 \<and> icms c1 \<le> icms c2 \<and> rat c1 \<le> rat c2 \<and> cpp c1 \<le> cpp c2
     \<and> inssTerceiros c1 \<le> inssTerceiros c2 \<and> fgts c1 \<le> fgts c2
     \<and> presuncaoIRPJ c1 \<le> presuncaoIRPJ c2 \<and> presuncaoCSLL c1 \<le> presuncaoCSLL c2
     \<and> pisFinancial c1 \<le> pisFinancial c2 \<and> cofinsFinancial c1 \<le> cofinsFinancial c2"

definition ratesNonneg :: "'a TaxRateConfig_scheme \<Rightarrow> bool" where
  "ratesNonneg c \<longleftrightarrow>
     0 \<le> pis c \<and> 0 \<le> cofins c \<and> 0 \<le> irpj c \<and> 0 \<le> irpjAdicional c \<and> 0 \<le> csll c
     \<and> 0 \<le> ipi c \<and> 0 \<le> iss c \<and> 0 \<le> icms c \<and> 0 \<le> rat c \<and> 0 \<le> cpp c
     \<and> 0 \<le> inssTerceiros c \<and> 0 \<le> fgts c \<and> 0 \<le> presuncaoIRPJ c \<and> 0 \<le> presuncaoCSLL c
     \<and> 0 \<le> pisFinancial c \<and> 0 \<le> cofinsFinancial c"

text \<open>
  The amounts of a summary that the rates multiply: each is a sum of absolute values in
  the dashboard.
\<close>

definition dataNonneg :: "'a FinancialData_scheme \<Rightarrow> bool" where
  "dataNonneg data \<longleftrightarrow>
     0 \<le> revenueAnnual data \<and> 0 \<le> payrollBase data \<and> 0 \<le> financialRevenues data"

section \<open>Example inputs\<close>

text \<open>
  Concrete summaries, lines and configurations at which the theorems below are
  evaluated. \<open>zeroData\<close> is the summary of a ledger without any tagged line,
  \<open>scenarioData\<close> the end-to-end scenario of the specification, and \<open>defaultLalur\<close> the
  default value of the last parameter of \<open>calculateReal\<close>.
\<close>

definition zeroData :: FinancialData where
  "zeroData = \<lparr> revenueAnnual = 0, revenueCurrent = 0, deductions = 0, taxesOnSales = 0,
     taxesIncome = 0, payrollBase = 0, expenses = 0, financialRevenues = 0,
     financialExpenses = 0, cogs = 0, reportedProfitBeforeTax = 0, realCreditBase = None \<rparr>"

definition scenarioData :: FinancialData where
  "scenarioData = zeroData \<lparr> revenueAnnual := 1000000, cogs := 300000, expenses := 200000,
     payrollBase := 150000 \<rparr>"

definition lossData :: FinancialData where
  "lossData = zeroData \<lparr> revenueAnnual := 100000, expenses := 500000 \<rparr>"

definition lossLalur :: LalurTotals where
  "lossLalur = \<lparr> additions = 1000, exclusions = 2000 \<rparr>"

definition deductionsExceedData :: FinancialData where
  "deductionsExceedData = zeroData \<lparr> revenueAnnual := 100, deductions := 200,
     realCreditBase := Some (- 100) \<rparr>"

definition creditEqualsBaseData :: FinancialData where
  "creditEqualsBaseData = zeroData \<lparr> revenueAnnual := 1000000, deductions := 100000,
     realCreditBase := Some 900000 \<rparr>"

definition defaultLalur :: LalurTotals where
  "defaultLalur = \<lparr> additions = 0, exclusions = 0 \<rparr>"

definition expenseLine50 :: DRELineItem where
  "expenseLine50 =
     \<lparr> description = ''Despesa'', lineValue = - 100000, isTotal = False, lineSection = DRE,
       level = 0, tag = Some DESPESA, lineType = ANALYTICAL, useForCredit = None,
       reformCreditRate = Some 50, lalurAdjustment = None \<rparr>"

text \<open>
  A result with a given regime, total tax and block flag and nothing else, for the
  examples of the selector.
\<close>

definition resultWith :: "Regime \<Rightarrow> real \<Rightarrow> bool option \<Rightarrow> TaxSimulationResult" where
  "resultWith g t b =
     \<lparr> regime = g, totalTax = t, effectiveRate = Finite 0,
       breakdown = \<lparr> taxSales = 0, taxIncome = 0, taxPayroll = 0, charges = 0 \<rparr>,
       detailed = emptyDetailed, resultNotes = None, isBlocked = b \<rparr>"

definition emptyLedgerResults :: DashboardResults where
  "emptyLedgerResults =
     results zeroData COMERCIO DEFAULT_PRESUMIDO_CONFIG DEFAULT_REAL_CONFIG DEFAULT_REFORM_CONFIG
       ([] :: DRELineItem list)"

definition noRevenueData :: FinancialData where
  "noRevenueData = zeroData \<lparr> payrollBase := 1000 \<rparr>"

definition revenueOnlyData :: FinancialData where
  "revenueOnlyData = zeroData \<lparr> revenueAnnual := 1000000 \<rparr>"

definition highIncomeRatesConfig :: TaxRateConfig where
  "highIncomeRatesConfig = DEFAULT_REAL_CONFIG \<lparr> irpj := 60, csll := 50 \<rparr>"

definition negativeIrpjConfig :: TaxRateConfig where
  "negativeIrpjConfig = DEFAULT_PRESUMIDO_CONFIG \<lparr> irpj := - 15 \<rparr>"

definition smallTradeData :: FinancialData where
  "smallTradeData = zeroData \<lparr> revenueAnnual := 180000, payrollBase := 1000 \<rparr>"

definition smallTradeResults :: DashboardResults where
  "smallTradeResults =
     results smallTradeData COMERCIO DEFAULT_PRESUMIDO_CONFIG DEFAULT_REAL_CONFIG
       DEFAULT_REFORM_CONFIG ([] :: DRELineItem list)"

definition negativePayrollData :: FinancialData where
  "negativePayrollData = zeroData \<lparr> payrollBase := - 1000 \<rparr>"

section \<open>Simples Nacional: brackets and the revenue ceiling\<close>

lemmas annex_defs = ANEXO_I_def ANEXO_II_def ANEXO_III_def ANEXO_IV_def ANEXO_V_def

lemma selectAnnex_in_tables: "snd (selectAnnex data activity) \<in> set ALL_ANEXOS"
  by (cases activity) (simp_all add: selectAnnex_def ALL_ANEXOS_def Let_def)

lemma find_at_limit:
  "sorted_wrt (\<lambda>a b. limit a < limit b) rs \<Longrightarrow> r \<in> set rs \<Longrightarrow>
     find (\<lambda>x. limit r \<le> limit x) rs = Some r"
proof (induction rs)
  case Nil
  then show ?case by simp
next
  case (Cons a rs)
  show ?case
  proof (cases "r = a")
    case True
    then show ?thesis by simp
  next
    case False
    with Cons.prems have mem: "r \<in> set rs" and lt: "limit a < limit r"
      and srt: "sorted_wrt (\<lambda>a b. limit a < limit b) rs" by auto
    from lt have "\<not> limit r \<le> limit a" by simp
    with Cons.IH [OF srt mem] show ?thesis by simp
  qed
qed

lemma annex_limits_ascending:
  "annex \<in> set ALL_ANEXOS \<Longrightarrow> sorted_wrt (\<lambda>a b. limit a < limit b) (ranges annex)"
  unfolding ALL_ANEXOS_def
  by (auto simp: annex_defs)

lemma annex_last_limit:
  "annex \<in> set ALL_ANEXOS \<Longrightarrow> ranges annex \<noteq> [] \<and> limit (last (ranges annex)) = SIMPLES_LIMIT"
  unfolding ALL_ANEXOS_def
  by (auto simp: annex_defs SIMPLES_LIMIT_def)

lemma findRange_at_limit:
  "annex \<in> set ALL_ANEXOS \<Longrightarrow> r \<in> set (ranges annex) \<Longrightarrow> findRange annex (limit r) = r"
  by (simp add: findRange_def find_at_limit annex_limits_ascending)

lemma findRange_found:
  assumes "annex \<in> set ALL_ANEXOS" "rbt12 \<le> SIMPLES_LIMIT"
  shows "find (\<lambda>r. rbt12 \<le> limit r) (ranges annex) \<noteq> None"
proof -
  from assms(1) have "last (ranges annex) \<in> set (ranges annex)"
      "limit (last (ranges annex)) = SIMPLES_LIMIT"
    by (simp_all add: annex_last_limit)
  with assms(2) show ?thesis
    by (auto simp: find_None_iff)
qed

lemma findRange_at_ceiling:
  assumes "annex \<in> set ALL_ANEXOS"
  shows "findRange annex SIMPLES_LIMIT = last (ranges annex)"
proof -
  from assms have "last (ranges annex) \<in> set (ranges annex)"
      "limit (last (ranges annex)) = SIMPLES_LIMIT"
    by (simp_all add: annex_last_limit)
  with findRange_at_limit [OF assms, of "last (ranges annex)"] show ?thesis
    by simp
qed

lemma findRange_first_or_last:
  "(\<exists>i < length (ranges annex).
       rbt12 \<le> limit (ranges annex ! i)
       \<and> (\<forall>j < i. \<not> rbt12 \<le> limit (ranges annex ! j))
       \<and> findRange annex rbt12 = ranges annex ! i)
   \<or> ((\<forall>r \<in> set (ranges annex). \<not> rbt12 \<le> limit r)
       \<and> findRange annex rbt12 = last (ranges annex))"
proof (cases "find (\<lambda>r. rbt12 \<le> limit r) (ranges annex)")
  case None
  then have "\<forall>r \<in> set (ranges annex). \<not> rbt12 \<le> limit r"
    by (simp add: find_None_iff)
  moreover from None have "findRange annex rbt12 = last (ranges annex)"
    by (simp add: findRange_def)
  ultimately show ?thesis by blast
next
  case (Some r)
  then obtain i where "i < length (ranges annex)" "rbt12 \<le> limit (ranges annex ! i)"
      "r = ranges annex ! i" "\<forall>j < i. \<not> rbt12 \<le> limit (ranges annex ! j)"
    unfolding find_Some_iff by blast
  with Some show ?thesis
    by (auto simp: findRange_def)
qed

lemma calculateSimples_blocked:
  "revenueAnnual data > SIMPLES_LIMIT \<Longrightarrow> calculateSimples data activity = blockedSimples data"
  by (simp add: calculateSimples_def)

lemma calculateSimples_open:
  "\<not> revenueAnnual data > SIMPLES_LIMIT \<Longrightarrow>
   calculateSimples data activity =
     (let range = findRange (snd (selectAnnex data activity)) (revenueAnnual data);
          factorR = fst (selectAnnex data activity);
          nominalRate = (if revenueAnnual data > 0
                         then ((revenueAnnual data * (aliquota range / 100)) - deducao range)
                                / revenueAnnual data
                         else 0);
          dasTax = revenueAnnual data * nominalRate;
          fgtsAmount = payrollBase data * 0.08;
          cppAmount = (if activity = SERVICO_ANEXO_IV then payrollBase data * 0.278 else 0)
      in
      \<lparr> regime = SimplesNacional,
        totalTax = dasTax + cppAmount + fgtsAmount,
        effectiveRate = js_times (js_div (dasTax + cppAmount + fgtsAmount) (revenueAnnual data)) 100,
        breakdown = \<lparr> taxSales = dasTax, taxIncome = 0, taxPayroll = cppAmount,
                      charges = fgtsAmount + cppAmount \<rparr>,
        detailed = emptyDetailed \<lparr> det_simplesDAS := dasTax, det_cpp := cppAmount,
                                   det_fgts := fgtsAmount \<rparr>,
        resultNotes = Some (if factorR \<ge> 0.28 \<and> activity = SERVICO_ANEXO_V
                            then [NoteFatorR] else []),
        isBlocked = None \<rparr>)"
  by (simp add: calculateSimples_def Let_def case_prod_beta)

text \<open>
  Claim C7. If the annual revenue is strictly above the ceiling of 4,800,000 (one unit
  above it in particular), \<open>calculateSimples\<close> returns the blocked result: \<open>isBlocked\<close>
  is true, the total tax is zero, the note names the excess, and nothing else is
  computed. Otherwise the result is not blocked and its unified amount is computed from
  the bracket that \<open>findRange\<close> selects in the annex of the activity. That bracket is the
  first one whose limit is at least the revenue, and the last bracket when there is
  none. In each of the five tables a revenue equal to the limit of a bracket selects
  that bracket, and a revenue equal to the ceiling is not blocked and selects the last
  bracket.
\<close>

theorem C7_simples_boundary:
  "(revenueAnnual data > SIMPLES_LIMIT \<longrightarrow>
      calculateSimples data activity = blockedSimples data
      \<and> isBlocked (calculateSimples data activity) = Some True
      \<and> totalTax (calculateSimples data activity) = 0
      \<and> resultNotes (calculateSimples data activity)
          = Some [NoteExcedeLimite (revenueAnnual data) SIMPLES_LIMIT])
   \<and> (revenueAnnual data = SIMPLES_LIMIT + 1 \<longrightarrow>
      isBlocked (calculateSimples data activity) = Some True)
   \<and> (revenueAnnual data \<le> SIMPLES_LIMIT \<longrightarrow>
      isBlocked (calculateSimples data activity) = None
      \<and> snd (selectAnnex data activity) \<in> set ALL_ANEXOS
      \<and> det_simplesDAS (detailed (calculateSimples data activity)) =
          (let range = findRange (snd (selectAnnex data activity)) (revenueAnnual data)
           in revenueAnnual data *
                (if revenueAnnual data > 0
                 then (revenueAnnual data * (aliquota range / 100) - deducao range)
                        / revenueAnnual data
                 else 0)))
   \<and> ((\<exists>i < length (ranges annex).
          rbt12 \<le> limit (ranges annex ! i)
          \<and> (\<forall>j < i. \<not> rbt12 \<le> limit (ranges annex ! j))
          \<and> findRange annex rbt12 = ranges annex ! i)
       \<or> ((\<forall>r \<in> set (ranges annex). \<not> rbt12 \<le> limit r)
          \<and> findRange annex rbt12 = last (ranges annex)))
   \<and> (annex \<in> set ALL_ANEXOS \<and> r \<in> set (ranges annex) \<longrightarrow> findRange annex (limit r) = r)
   \<and> (revenueAnnual data = SIMPLES_LIMIT \<longrightarrow>
      isBlocked (calculateSimples data activity) = None
      \<and> findRange (snd (selectAnnex data activity)) (revenueAnnual data)
          = last (ranges (snd (selectAnnex data activity))))"
proof (intro conjI impI)
  assume b: "revenueAnnual data > SIMPLES_LIMIT"
  show "calculateSimples data activity = blockedSimples data"
    using b by (rule calculateSimples_blocked)
  show "isBlocked (calculateSimples data activity) = Some True"
    using b by (simp add: calculateSimples_blocked blockedSimples_def)
  show "totalTax (calculateSimples data activity) = 0"
    using b by (simp add: calculateSimples_blocked blockedSimples_def)
  show "resultNotes (calculateSimples data activity)
          = Some [NoteExcedeLimite (revenueAnnual data) SIMPLES_LIMIT]"
    using b by (simp add: calculateSimples_blocked blockedSimples_def)
next
  assume "revenueAnnual data = SIMPLES_LIMIT + 1"
  then have "revenueAnnual data > SIMPLES_LIMIT" by simp
  then show "isBlocked (calculateSimples data activity) = Some True"
    by (simp add: calculateSimples_blocked blockedSimples_def)
next
  assume "revenueAnnual data \<le> SIMPLES_LIMIT"
  then have nb: "\<not> revenueAnnual data > SIMPLES_LIMIT" by simp
  show "isBlocked (calculateSimples data activity) = None"
    by (simp add: calculateSimples_open [OF nb] Let_def)
  show "snd (selectAnnex data activity) \<in> set ALL_ANEXOS"
    by (rule selectAnnex_in_tables)
  show "det_simplesDAS (detailed (calculateSimples data activity)) =
          (let range = findRange (snd (selectAnnex data activity)) (revenueAnnual data)
           in revenueAnnual data *
                (if revenueAnnual data > 0
                 then (revenueAnnual data * (aliquota range / 100) - deducao range)
                        / revenueAnnual data
                 else 0))"
    by (simp add: calculateSimples_open [OF nb] Let_def)
next
  show "(\<exists>i < length (ranges annex).
          rbt12 \<le> limit (ranges annex ! i)
          \<and> (\<forall>j < i. \<not> rbt12 \<le> limit (ranges annex ! j))
          \<and> findRange annex rbt12 = ranges annex ! i)
       \<or> ((\<forall>r \<in> set (ranges annex). \<not> rbt12 \<le> limit r)
          \<and> findRange annex rbt12 = last (ranges annex))"
    by (rule findRange_first_or_last)
next
  assume "annex \<in> set ALL_ANEXOS \<and> r \<in> set (ranges annex)"
  then show "findRange annex (limit r) = r"
    by (simp add: findRange_at_limit)
next
  assume e: "revenueAnnual data = SIMPLES_LIMIT"
  then have nb: "\<not> revenueAnnual data > SIMPLES_LIMIT" by simp
  show "isBlocked (calculateSimples data activity) = None"
    by (simp add: calculateSimples_open [OF nb] Let_def)
  have "snd (selectAnnex data activity) \<in> set ALL_ANEXOS"
    by (rule selectAnnex_in_tables)
  then show "findRange (snd (selectAnnex data activity)) (revenueAnnual data)
          = last (ranges (snd (selectAnnex data activity)))"
    unfolding e by (rule findRange_at_ceiling)
qed

theorem C7_simples_boundary_witness:
  "isBlocked (calculateSimples (zeroData\<lparr>revenueAnnual := 4800001\<rparr>) COMERCIO) = Some True
   \<and> totalTax (calculateSimples (zeroData\<lparr>revenueAnnual := 4800001\<rparr>) COMERCIO) = 0
   \<and> isBlocked (calculateSimples (zeroData\<lparr>revenueAnnual := 4800000\<rparr>) COMERCIO) = None
   \<and> findRange ANEXO_I 4800000 = \<lparr> limit = 4800000, aliquota = 19.0, deducao = 378000 \<rparr>
   \<and> findRange ANEXO_I 360000 = \<lparr> limit = 360000, aliquota = 7.3, deducao = 5940 \<rparr>"
proof -
  let ?above = "zeroData\<lparr>revenueAnnual := 4800001\<rparr>"
  let ?at = "zeroData\<lparr>revenueAnnual := 4800000\<rparr>"
  let ?r2 = "\<lparr> limit = 360000, aliquota = 7.3, deducao = 5940 \<rparr> :: SimplesTableRange"
  have above: "revenueAnnual ?above > SIMPLES_LIMIT"
    by (simp add: zeroData_def SIMPLES_LIMIT_def)
  have at: "revenueAnnual ?at = SIMPLES_LIMIT" "revenueAnnual ?at \<le> SIMPLES_LIMIT"
    by (simp_all add: zeroData_def SIMPLES_LIMIT_def)
  have mem: "ANEXO_I \<in> set ALL_ANEXOS \<and> ?r2 \<in> set (ranges ANEXO_I)"
    by (simp add: ALL_ANEXOS_def ANEXO_I_def)
  have sel: "snd (selectAnnex ?at COMERCIO) = ANEXO_I"
    by (simp add: selectAnnex_def)
  have lim: "limit ?r2 = 360000" by simp
  have lst: "last (ranges ANEXO_I) = \<lparr> limit = 4800000, aliquota = 19.0, deducao = 378000 \<rparr>"
    by (simp add: ANEXO_I_def)
  note above_inst = C7_simples_boundary [of ?above COMERCIO ANEXO_I 360000 ?r2]
  note at_inst = C7_simples_boundary [of ?at COMERCIO ANEXO_I 360000 ?r2]
  from above_inst above
  have "isBlocked (calculateSimples ?above COMERCIO) = Some True
        \<and> totalTax (calculateSimples ?above COMERCIO) = 0"
    by blast
  moreover from above_inst mem have "findRange ANEXO_I (limit ?r2) = ?r2"
    by blast
  then have "findRange ANEXO_I 360000 = ?r2"
    by simp
  moreover from at_inst at have "isBlocked (calculateSimples ?at COMERCIO) = None
        \<and> findRange (snd (selectAnnex ?at COMERCIO)) (revenueAnnual ?at)
            = last (ranges (snd (selectAnnex ?at COMERCIO)))"
    by blast
  then have "isBlocked (calculateSimples ?at COMERCIO) = None
        \<and> findRange ANEXO_I 4800000 = \<lparr> limit = 4800000, aliquota = 19.0, deducao = 378000 \<rparr>"
    unfolding sel lst by (simp add: zeroData_def)
  ultimately show ?thesis by simp
qed

section \<open>Lucro Presumido: income-tax bases and the surtax\<close>

text \<open>
  Claim C3. In \<open>calculatePresumido\<close> the IRPJ base is the annual revenue times the
  configured IRPJ presumption margin plus the whole financial revenue, and the CSLL base
  is the revenue times its own margin plus the whole financial revenue. IRPJ is the base
  times the IRPJ rate, its surtax is the excess of the IRPJ base over 240,000, floored at
  zero, times the surtax rate, and CSLL is the CSLL base times the CSLL rate with no
  surtax. With a positive surtax rate, as in the default configuration, the surtax is
  positive exactly when the IRPJ base exceeds 240,000. With the default configuration,
  revenue 1,000,000 and no financial revenue, the IRPJ base is 320,000, IRPJ is 48,000
  and the surtax is 8,000.
\<close>

theorem C3_presumido_income_tax:
  "p_baseIRPJ (presumidoBody data activity config)
     = revenueAnnual data * (presuncaoIRPJ config / 100) + financialRevenues data
   \<and> p_baseCSLL (presumidoBody data activity config)
     = revenueAnnual data * (presuncaoCSLL config / 100) + financialRevenues data
   \<and> det_irpj (detailed (calculatePresumido data activity config))
     = p_baseIRPJ (presumidoBody data activity config) * (irpj config / 100)
   \<and> det_irpjAdicional (detailed (calculatePresumido data activity config))
     = max 0 (p_baseIRPJ (presumidoBody data activity config) - 240000)
         * (irpjAdicional config / 100)
   \<and> det_csll (detailed (calculatePresumido data activity config))
     = p_baseCSLL (presumidoBody data activity config) * (csll config / 100)
   \<and> taxIncome (breakdown (calculatePresumido data activity config))
     = det_irpj (detailed (calculatePresumido data activity config))
       + det_irpjAdicional (detailed (calculatePresumido data activity config))
       + det_csll (detailed (calculatePresumido data activity config))
   \<and> (irpjAdicional config > 0 \<longrightarrow>
        (det_irpjAdicional (detailed (calculatePresumido data activity config)) > 0
         \<longleftrightarrow> p_baseIRPJ (presumidoBody data activity config) > 240000))
   \<and> (revenueAnnual data = 1000000 \<and> financialRevenues data = 0 \<longrightarrow>
        p_baseIRPJ (presumidoBody data activity DEFAULT_PRESUMIDO_CONFIG) = 320000
        \<and> det_irpj (detailed (calculatePresumido data activity DEFAULT_PRESUMIDO_CONFIG)) = 48000
        \<and> det_irpjAdicional (detailed (calculatePresumido data activity DEFAULT_PRESUMIDO_CONFIG))
            = 8000)
   \<and> (det_irpjAdicional (detailed (calculatePresumido data activity DEFAULT_PRESUMIDO_CONFIG)) > 0
        \<longleftrightarrow> p_baseIRPJ (presumidoBody data activity DEFAULT_PRESUMIDO_CONFIG) > 240000)"
proof (intro conjI impI)
  show "p_baseIRPJ (presumidoBody data activity config)
     = revenueAnnual data * (presuncaoIRPJ config / 100) + financialRevenues data"
    by (simp add: presumidoBody_def Let_def)
  show "p_baseCSLL (presumidoBody data activity config)
     = revenueAnnual data * (presuncaoCSLL config / 100) + financialRevenues data"
    by (simp add: presumidoBody_def Let_def)
  show "det_irpj (detailed (calculatePresumido data activity config))
     = p_baseIRPJ (presumidoBody data activity config) * (irpj config / 100)"
    by (simp add: calculatePresumido_def presumidoBody_def Let_def)
  show "det_irpjAdicional (detailed (calculatePresumido data activity config))
     = max 0 (p_baseIRPJ (presumidoBody data activity config) - 240000)
         * (irpjAdicional config / 100)"
    by (simp add: calculatePresumido_def presumidoBody_def Let_def THRESHOLD_ADICIONAL_IRPJ_def)
  show "det_csll (detailed (calculatePresumido data activity config))
     = p_baseCSLL (presumidoBody data activity config) * (csll config / 100)"
    by (simp add: calculatePresumido_def presumidoBody_def Let_def)
  show "taxIncome (breakdown (calculatePresumido data activity config))
     = det_irpj (detailed (calculatePresumido data activity config))
       + det_irpjAdicional (detailed (calculatePresumido data activity config))
       + det_csll (detailed (calculatePresumido data activity config))"
    by (simp add: calculatePresumido_def presumidoBody_def Let_def)
next
  assume "irpjAdicional config > 0"
  then show "det_irpjAdicional (detailed (calculatePresumido data activity config)) > 0
         \<longleftrightarrow> p_baseIRPJ (presumidoBody data activity config) > 240000"
    by (simp add: calculatePresumido_def presumidoBody_def Let_def THRESHOLD_ADICIONAL_IRPJ_def
        zero_less_mult_iff max_def)
next
  assume a: "revenueAnnual data = 1000000 \<and> financialRevenues data = 0"
  then show "p_baseIRPJ (presumidoBody data activity DEFAULT_PRESUMIDO_CONFIG) = 320000"
    by (simp add: presumidoBody_def Let_def DEFAULT_PRESUMIDO_CONFIG_def)
  from a show "det_irpj (detailed (calculatePresumido data activity DEFAULT_PRESUMIDO_CONFIG)) = 48000"
    by (simp add: calculatePresumido_def presumidoBody_def Let_def DEFAULT_PRESUMIDO_CONFIG_def)
  from a show "det_irpjAdicional (detailed (calculatePresumido data activity DEFAULT_PRESUMIDO_CONFIG))
            = 8000"
    by (simp add: calculatePresumido_def presumidoBody_def Let_def DEFAULT_PRESUMIDO_CONFIG_def
        THRESHOLD_ADICIONAL_IRPJ_def)
next
  show "det_irpjAdicional (detailed (calculatePresumido data activity DEFAULT_PRESUMIDO_CONFIG)) > 0
        \<longleftrightarrow> p_baseIRPJ (presumidoBody data activity DEFAULT_PRESUMIDO_CONFIG) > 240000"
    by (simp add: calculatePresumido_def presumidoBody_def Let_def THRESHOLD_ADICIONAL_IRPJ_def
        DEFAULT_PRESUMIDO_CONFIG_def zero_less_mult_iff max_def)
qed

theorem C3_presumido_income_tax_witness:
  "p_baseIRPJ (presumidoBody scenarioData SERVICO_ANEXO_III DEFAULT_PRESUMIDO_CONFIG) = 320000
   \<and> det_irpj (detailed (calculatePresumido scenarioData SERVICO_ANEXO_III DEFAULT_PRESUMIDO_CONFIG))
       = 48000
   \<and> det_irpjAdicional
        (detailed (calculatePresumido scenarioData SERVICO_ANEXO_III DEFAULT_PRESUMIDO_CONFIG))
       = 8000
   \<and> det_irpjAdicional
        (detailed (calculatePresumido scenarioData SERVICO_ANEXO_III DEFAULT_PRESUMIDO_CONFIG)) > 0"
proof -
  have h: "revenueAnnual scenarioData = 1000000 \<and> financialRevenues scenarioData = 0"
    by (simp add: scenarioData_def zeroData_def)
  have r: "irpjAdicional DEFAULT_PRESUMIDO_CONFIG > 0"
    by (simp add: DEFAULT_PRESUMIDO_CONFIG_def)
  note inst = C3_presumido_income_tax [of scenarioData SERVICO_ANEXO_III DEFAULT_PRESUMIDO_CONFIG]
  from inst h have vals:
    "p_baseIRPJ (presumidoBody scenarioData SERVICO_ANEXO_III DEFAULT_PRESUMIDO_CONFIG) = 320000
     \<and> det_irpj (detailed (calculatePresumido scenarioData SERVICO_ANEXO_III DEFAULT_PRESUMIDO_CONFIG))
         = 48000
     \<and> det_irpjAdicional
          (detailed (calculatePresumido scenarioData SERVICO_ANEXO_III DEFAULT_PRESUMIDO_CONFIG))
         = 8000"
    by blast
  from inst r have
    "det_irpjAdicional
        (detailed (calculatePresumido scenarioData SERVICO_ANEXO_III DEFAULT_PRESUMIDO_CONFIG)) > 0
     \<longleftrightarrow> p_baseIRPJ (presumidoBody scenarioData SERVICO_ANEXO_III DEFAULT_PRESUMIDO_CONFIG) > 240000"
    by blast
  with vals show ?thesis by simp
qed

section \<open>Lucro Real: the stages of the computation\<close>

lemmas real_unfold = calculateReal_def realBody_def Let_def
lemmas sel_simps = RealLocals.select_convs TaxSimulationResult.select_convs
  TaxBreakdown.select_convs TaxDetailedBreakdown.select_convs

lemma real_revenueBase:
  "r_revenueBase (realBody data activity config lalur)
     = max 0 (revenueAnnual data - deductions data)"
  by (simp only: real_unfold sel_simps)

lemma real_debito:
  "r_debitoPis (realBody data activity config lalur)
     = r_revenueBase (realBody data activity config lalur) * (pis config / 100)"
  "r_debitoCofins (realBody data activity config lalur)
     = r_revenueBase (realBody data activity config lalur) * (cofins config / 100)"
  by (simp_all only: real_unfold sel_simps)

lemma real_creditBase:
  "r_creditBase (realBody data activity config lalur)
     = (case realCreditBase data of
          Some b \<Rightarrow> b
        | None \<Rightarrow> (if activity = COMERCIO \<or> activity = INDUSTRIA then cogs data
                   else expenses data * 0.20))"
  by (simp only: real_unfold sel_simps)

lemma real_credito:
  "r_creditoPis (realBody data activity config lalur)
     = r_creditBase (realBody data activity config lalur) * (pis config / 100)"
  "r_creditoCofins (realBody data activity config lalur)
     = r_creditBase (realBody data activity config lalur) * (cofins config / 100)"
  by (simp_all only: real_unfold sel_simps)

lemma real_payable:
  "r_pisPayable (realBody data activity config lalur)
     = max 0 (r_debitoPis (realBody data activity config lalur)
              - r_creditoPis (realBody data activity config lalur))"
  "r_cofinsPayable (realBody data activity config lalur)
     = max 0 (r_debitoCofins (realBody data activity config lalur)
              - r_creditoCofins (realBody data activity config lalur))"
  "det_pis (detailed (calculateReal data activity config lalur))
     = r_pisPayable (realBody data activity config lalur)"
  "det_cofins (detailed (calculateReal data activity config lalur))
     = r_cofinsPayable (realBody data activity config lalur)"
  by (simp_all only: real_unfold sel_simps)

lemma real_flat_sales:
  "det_ipi (detailed (calculateReal data activity config lalur))
     = revenueAnnual data * (ipi config / 100)"
  "det_iss (detailed (calculateReal data activity config lalur))
     = (if \<not> (activity = COMERCIO \<or> activity = INDUSTRIA)
        then revenueAnnual data * (iss config / 100) else 0)"
  "det_icms (detailed (calculateReal data activity config lalur))
     = (if activity = COMERCIO \<or> activity = INDUSTRIA
        then revenueAnnual data * (icms config / 100) else 0)"
  by (simp_all only: real_unfold sel_simps)

lemma real_financial_taxes:
  "det_pisFinancial (detailed (calculateReal data activity config lalur))
     = financialRevenues data * (js_or0 (pisFinancial config) / 100)"
  "det_cofinsFinancial (detailed (calculateReal data activity config lalur))
     = financialRevenues data * (js_or0 (cofinsFinancial config) / 100)"
  "r_totalFinancialTaxes (realBody data activity config lalur)
     = det_pisFinancial (detailed (calculateReal data activity config lalur))
       + det_cofinsFinancial (detailed (calculateReal data activity config lalur))"
  by (simp_all only: real_unfold sel_simps)

lemma real_payroll:
  "det_cpp (detailed (calculateReal data activity config lalur))
     = payrollBase data * (cpp config / 100)"
  "det_rat (detailed (calculateReal data activity config lalur))
     = payrollBase data * (rat config / 100)"
  "det_inssTerceiros (detailed (calculateReal data activity config lalur))
     = payrollBase data * (inssTerceiros config / 100)"
  "det_fgts (detailed (calculateReal data activity config lalur))
     = payrollBase data * (fgts config / 100)"
  "taxPayroll (breakdown (calculateReal data activity config lalur))
     = det_cpp (detailed (calculateReal data activity config lalur))
       + det_rat (detailed (calculateReal data activity config lalur))
       + det_inssTerceiros (detailed (calculateReal data activity config lalur))"
  "charges (breakdown (calculateReal data activity config lalur))
     = taxPayroll (breakdown (calculateReal data activity config lalur))
       + det_fgts (detailed (calculateReal data activity config lalur))"
  by (simp_all only: real_unfold sel_simps)

lemma real_totalSalesTax:
  "r_totalSalesTax (realBody data activity config lalur)
     = r_pisPayable (realBody data activity config lalur)
       + r_cofinsPayable (realBody data activity config lalur)
       + det_iss (detailed (calculateReal data activity config lalur))
       + det_icms (detailed (calculateReal data activity config lalur))
       + det_ipi (detailed (calculateReal data activity config lalur))"
  "taxSales (breakdown (calculateReal data activity config lalur))
     = r_totalSalesTax (realBody data activity config lalur)"
  by (simp_all only: real_unfold sel_simps)

lemma real_profit:
  "r_netRevenue (realBody data activity config lalur)
     = revenueAnnual data - deductions data - r_totalSalesTax (realBody data activity config lalur)"
  "r_totalDeductibleExpenses (realBody data activity config lalur)
     = cogs data + expenses data + payrollBase data
       + charges (breakdown (calculateReal data activity config lalur))"
  "r_operationalResult (realBody data activity config lalur)
     = r_netRevenue (realBody data activity config lalur)
       - r_totalDeductibleExpenses (realBody data activity config lalur)"
  "r_financialResult (realBody data activity config lalur)
     = financialRevenues data - r_totalFinancialTaxes (realBody data activity config lalur)
       - financialExpenses data"
  "r_profitBeforeTax (realBody data activity config lalur)
     = r_operationalResult (realBody data activity config lalur)
       + r_financialResult (realBody data activity config lalur)"
  "r_taxableIncome (realBody data activity config lalur)
     = max 0 (r_profitBeforeTax (realBody data activity config lalur)
              + additions lalur - exclusions lalur)"
  by (simp_all only: real_unfold sel_simps)

lemma real_income_tax:
  "det_irpj (detailed (calculateReal data activity config lalur))
     = r_taxableIncome (realBody data activity config lalur) * (irpj config / 100)"
  "det_irpjAdicional (detailed (calculateReal data activity config lalur))
     = max 0 (r_taxableIncome (realBody data activity config lalur) - THRESHOLD_ADICIONAL_IRPJ)
         * (irpjAdicional config / 100)"
  "det_csll (detailed (calculateReal data activity config lalur))
     = r_taxableIncome (realBody data activity config lalur) * (csll config / 100)"
  "taxIncome (breakdown (calculateReal data activity config lalur))
     = det_irpj (detailed (calculateReal data activity config lalur))
       + det_irpjAdicional (detailed (calculateReal data activity config lalur))
       + det_csll (detailed (calculateReal data activity config lalur))"
  by (simp_all only: real_unfold sel_simps)

lemma real_totalTax:
  "totalTax (calculateReal data activity config lalur)
     = taxIncome (breakdown (calculateReal data activity config lalur))
       + r_totalSalesTax (realBody data activity config lalur)
       + r_totalFinancialTaxes (realBody data activity config lalur)
       + taxPayroll (breakdown (calculateReal data activity config lalur))
       + det_fgts (detailed (calculateReal data activity config lalur))"
  by (simp only: real_unfold sel_simps)

lemma real_notes:
  "resultNotes (calculateReal data activity config lalur)
     = Some ((if r_taxableIncome (realBody data activity config lalur) \<le> 0
              then [NotePrejuizoFiscal] else [])
             @ (if additions lalur > 0 then [NoteAdicoesLALUR (additions lalur)] else [])
             @ (if exclusions lalur > 0 then [NoteExclusoesLALUR (exclusions lalur)] else []))"
  "isBlocked (calculateReal data activity config lalur) = None"
  "regime (calculateReal data activity config lalur) = LucroReal"
  "effectiveRate (calculateReal data activity config lalur)
     = js_times (js_div (totalTax (calculateReal data activity config lalur))
                        (revenueAnnual data)) 100"
  by (simp_all only: real_unfold sel_simps)

section \<open>Lucro Real: totals of the flagged lines\<close>

lemma lalurStep_additions:
  "additions (lalurStep acc line)
     = additions acc + (if lalurAdjustment line = Some ADDITION then \<bar>lineValue line\<bar> else 0)"
  by (simp add: lalurStep_def Let_def)

lemma lalurStep_exclusions:
  "exclusions (lalurStep acc line)
     = exclusions acc + (if lalurAdjustment line = Some EXCLUSION then \<bar>lineValue line\<bar> else 0)"
  by (simp add: lalurStep_def Let_def)

lemma foldl_lalurStep_additions:
  "additions (foldl lalurStep acc ls)
     = additions acc + (\<Sum>l \<leftarrow> filter (\<lambda>l. lalurAdjustment l = Some ADDITION) ls. \<bar>lineValue l\<bar>)"
  by (induction ls arbitrary: acc) (simp_all add: lalurStep_additions)

lemma foldl_lalurStep_exclusions:
  "exclusions (foldl lalurStep acc ls)
     = exclusions acc + (\<Sum>l \<leftarrow> filter (\<lambda>l. lalurAdjustment l = Some EXCLUSION) ls. \<bar>lineValue l\<bar>)"
  by (induction ls arbitrary: acc) (simp_all add: lalurStep_exclusions)

lemma lalurAdjustmentsOf_additions:
  "additions (lalurAdjustmentsOf ls)
     = (\<Sum>l \<leftarrow> filter (\<lambda>l. lineType l = ANALYTICAL \<and> lalurAdjustment l = Some ADDITION) ls.
          \<bar>lineValue l\<bar>)"
proof -
  have "filter (\<lambda>l. lalurAdjustment l = Some ADDITION)
          (filter (\<lambda>l. lineType l = ANALYTICAL \<and> lalurAdjustment l \<noteq> None) ls)
      = filter (\<lambda>l. lineType l = ANALYTICAL \<and> lalurAdjustment l = Some ADDITION) ls"
    by (induction ls) auto
  then show ?thesis
    by (simp only: lalurAdjustmentsOf_def foldl_lalurStep_additions LalurTotals.select_convs
        add_0_left)
qed

lemma lalurAdjustmentsOf_exclusions:
  "exclusions (lalurAdjustmentsOf ls)
     = (\<Sum>l \<leftarrow> filter (\<lambda>l. lineType l = ANALYTICAL \<and> lalurAdjustment l = Some EXCLUSION) ls.
          \<bar>lineValue l\<bar>)"
proof -
  have "filter (\<lambda>l. lalurAdjustment l = Some EXCLUSION)
          (filter (\<lambda>l. lineType l = ANALYTICAL \<and> lalurAdjustment l \<noteq> None) ls)
      = filter (\<lambda>l. lineType l = ANALYTICAL \<and> lalurAdjustment l = Some EXCLUSION) ls"
    by (induction ls) auto
  then show ?thesis
    by (simp only: lalurAdjustmentsOf_def foldl_lalurStep_exclusions LalurTotals.select_convs
        add_0_left)
qed

section \<open>Lucro Real: profit derivation and taxable income\<close>

text \<open>
  Claim C1. In \<open>calculateReal\<close> the profit is derived in this order: net revenue is
  revenue less deductions less the sum of PIS payable, COFINS payable, ISS or ICMS, and
  IPI; the operating result is net revenue less the sum of cost of goods, operating
  expenses, payroll base and employer charges; the financial result is financial revenue
  less the PIS and COFINS on financial revenue less financial expense; pre-tax profit is
  the sum of the operating and the financial result; taxable income is the maximum of
  zero and pre-tax profit plus additions less exclusions, and IRPJ, its surtax and CSLL
  are computed on it. When the adjusted profit is not positive, taxable income is zero,
  IRPJ, surtax and CSLL are zero, and the notes start with the projected fiscal loss,
  followed by the additions and the exclusions whenever they are positive. In the
  dashboard the additions and exclusions are the sums of the absolute values of the
  ANALYTICAL lines flagged ADDITION and EXCLUSION.
\<close>

theorem C1_real_profit_derivation:
  "r_netRevenue (realBody data activity config lalur)
     = revenueAnnual data - deductions data
       - (det_pis (detailed (calculateReal data activity config lalur))
          + det_cofins (detailed (calculateReal data activity config lalur))
          + (det_iss (detailed (calculateReal data activity config lalur))
             + det_icms (detailed (calculateReal data activity config lalur)))
          + det_ipi (detailed (calculateReal data activity config lalur)))
   \<and> r_operationalResult (realBody data activity config lalur)
     = r_netRevenue (realBody data activity config lalur)
       - (cogs data + expenses data + payrollBase data
          + charges (breakdown (calculateReal data activity config lalur)))
   \<and> r_financialResult (realBody data activity config lalur)
     = financialRevenues data
       - (det_pisFinancial (detailed (calculateReal data activity config lalur))
          + det_cofinsFinancial (detailed (calculateReal data activity config lalur)))
       - financialExpenses data
   \<and> r_profitBeforeTax (realBody data activity config lalur)
     = r_operationalResult (realBody data activity config lalur)
       + r_financialResult (realBody data activity config lalur)
   \<and> r_taxableIncome (realBody data activity config lalur)
     = max 0 (r_profitBeforeTax (realBody data activity config lalur)
              + additions lalur - exclusions lalur)
   \<and> det_irpj (detailed (calculateReal data activity config lalur))
     = r_taxableIncome (realBody data activity config lalur) * (irpj config / 100)
   \<and> det_irpjAdicional (detailed (calculateReal data activity config lalur))
     = max 0 (r_taxableIncome (realBody data activity config lalur) - 240000)
         * (irpjAdicional config / 100)
   \<and> det_csll (detailed (calculateReal data activity config lalur))
     = r_taxableIncome (realBody data activity config lalur) * (csll config / 100)
   \<and> taxIncome (breakdown (calculateReal data activity config lalur))
     = det_irpj (detailed (calculateReal data activity config lalur))
       + det_irpjAdicional (detailed (calculateReal data activity config lalur))
       + det_csll (detailed (calculateReal data activity config lalur))
   \<and> (r_profitBeforeTax (realBody data activity config lalur)
         + additions lalur - exclusions lalur \<le> 0 \<longrightarrow>
        r_taxableIncome (realBody data activity config lalur) = 0
        \<and> det_irpj (detailed (calculateReal data activity config lalur)) = 0
        \<and> det_irpjAdicional (detailed (calculateReal data activity config lalur)) = 0
        \<and> det_csll (detailed (calculateReal data activity config lalur)) = 0
        \<and> taxIncome (breakdown (calculateReal data activity config lalur)) = 0
        \<and> resultNotes (calculateReal data activity config lalur)
            = Some ([NotePrejuizoFiscal]
                    @ (if additions lalur > 0 then [NoteAdicoesLALUR (additions lalur)] else [])
                    @ (if exclusions lalur > 0 then [NoteExclusoesLALUR (exclusions lalur)] else [])))
   \<and> additions (lalurAdjustmentsOf ls)
     = (\<Sum>l \<leftarrow> filter (\<lambda>l. lineType l = ANALYTICAL \<and> lalurAdjustment l = Some ADDITION) ls.
          \<bar>lineValue l\<bar>)
   \<and> exclusions (lalurAdjustmentsOf ls)
     = (\<Sum>l \<leftarrow> filter (\<lambda>l. lineType l = ANALYTICAL \<and> lalurAdjustment l = Some EXCLUSION) ls.
          \<bar>lineValue l\<bar>)
   \<and> res_real (results data activity presumidoConfig config reformConfig ls)
     = calculateReal data activity config (lalurAdjustmentsOf ls)"
proof (intro conjI impI)
  show "r_netRevenue (realBody data activity config lalur)
     = revenueAnnual data - deductions data
       - (det_pis (detailed (calculateReal data activity config lalur))
          + det_cofins (detailed (calculateReal data activity config lalur))
          + (det_iss (detailed (calculateReal data activity config lalur))
             + det_icms (detailed (calculateReal data activity config lalur)))
          + det_ipi (detailed (calculateReal data activity config lalur)))"
    by (simp only: real_profit(1) real_totalSalesTax(1) real_payable(3,4) add.assoc)
  show "r_operationalResult (realBody data activity config lalur)
     = r_netRevenue (realBody data activity config lalur)
       - (cogs data + expenses data + payrollBase data
          + charges (breakdown (calculateReal data activity config lalur)))"
    by (simp only: real_profit(2,3))
  show "r_financialResult (realBody data activity config lalur)
     = financialRevenues data
       - (det_pisFinancial (detailed (calculateReal data activity config lalur))
          + det_cofinsFinancial (detailed (calculateReal data activity config lalur)))
       - financialExpenses data"
    by (simp only: real_profit(4) real_financial_taxes(3))
  show "r_profitBeforeTax (realBody data activity config lalur)
     = r_operationalResult (realBody data activity config lalur)
       + r_financialResult (realBody data activity config lalur)"
    by (rule real_profit(5))
  show "r_taxableIncome (realBody data activity config lalur)
     = max 0 (r_profitBeforeTax (realBody data activity config lalur)
              + additions lalur - exclusions lalur)"
    by (rule real_profit(6))
  show "det_irpj (detailed (calculateReal data activity config lalur))
     = r_taxableIncome (realBody data activity config lalur) * (irpj config / 100)"
    by (rule real_income_tax(1))
  show "det_irpjAdicional (detailed (calculateReal data activity config lalur))
     = max 0 (r_taxableIncome (realBody data activity config lalur) - 240000)
         * (irpjAdicional config / 100)"
    by (simp only: real_income_tax(2) THRESHOLD_ADICIONAL_IRPJ_def)
  show "det_csll (detailed (calculateReal data activity config lalur))
     = r_taxableIncome (realBody data activity config lalur) * (csll config / 100)"
    by (rule real_income_tax(3))
  show "taxIncome (breakdown (calculateReal data activity config lalur))
     = det_irpj (detailed (calculateReal data activity config lalur))
       + det_irpjAdicional (detailed (calculateReal data activity config lalur))
       + det_csll (detailed (calculateReal data activity config lalur))"
    by (rule real_income_tax(4))
next
  assume loss: "r_profitBeforeTax (realBody data activity config lalur)
         + additions lalur - exclusions lalur \<le> 0"
  then show zero: "r_taxableIncome (realBody data activity config lalur) = 0"
    by (simp add: real_profit(6))
  show i0: "det_irpj (detailed (calculateReal data activity config lalur)) = 0"
    by (simp add: real_income_tax(1) zero)
  show a0: "det_irpjAdicional (detailed (calculateReal data activity config lalur)) = 0"
    by (simp add: real_income_tax(2) zero THRESHOLD_ADICIONAL_IRPJ_def)
  show c0: "det_csll (detailed (calculateReal data activity config lalur)) = 0"
    by (simp add: real_income_tax(3) zero)
  show "taxIncome (breakdown (calculateReal data activity config lalur)) = 0"
    by (simp add: real_income_tax(4) i0 a0 c0)
  show "resultNotes (calculateReal data activity config lalur)
            = Some ([NotePrejuizoFiscal]
                    @ (if additions lalur > 0 then [NoteAdicoesLALUR (additions lalur)] else [])
                    @ (if exclusions lalur > 0 then [NoteExclusoesLALUR (exclusions lalur)] else []))"
    by (simp add: real_notes(1) zero)
next
  show "additions (lalurAdjustmentsOf ls)
     = (\<Sum>l \<leftarrow> filter (\<lambda>l. lineType l = ANALYTICAL \<and> lalurAdjustment l = Some ADDITION) ls.
          \<bar>lineValue l\<bar>)"
    by (rule lalurAdjustmentsOf_additions)
  show "exclusions (lalurAdjustmentsOf ls)
     = (\<Sum>l \<leftarrow> filter (\<lambda>l. lineType l = ANALYTICAL \<and> lalurAdjustment l = Some EXCLUSION) ls.
          \<bar>lineValue l\<bar>)"
    by (rule lalurAdjustmentsOf_exclusions)
  show "res_real (results data activity presumidoConfig config reformConfig ls)
     = calculateReal data activity config (lalurAdjustmentsOf ls)"
    by (simp only: results_def Let_def DashboardResults.select_convs)
qed

lemma lossData_profitBeforeTax:
  "r_profitBeforeTax (realBody lossData SERVICO_ANEXO_III DEFAULT_REAL_CONFIG lossLalur) = - 405000"
  by (simp add: real_profit real_totalSalesTax real_payable real_debito real_credito
      real_creditBase real_revenueBase real_flat_sales real_financial_taxes real_payroll
      lossData_def zeroData_def DEFAULT_REAL_CONFIG_def js_or0_def)

theorem C1_real_profit_derivation_witness:
  "r_profitBeforeTax (realBody lossData SERVICO_ANEXO_III DEFAULT_REAL_CONFIG lossLalur)
     + additions lossLalur - exclusions lossLalur \<le> 0
   \<and> r_taxableIncome (realBody lossData SERVICO_ANEXO_III DEFAULT_REAL_CONFIG lossLalur) = 0
   \<and> taxIncome (breakdown (calculateReal lossData SERVICO_ANEXO_III DEFAULT_REAL_CONFIG lossLalur)) = 0
   \<and> resultNotes (calculateReal lossData SERVICO_ANEXO_III DEFAULT_REAL_CONFIG lossLalur)
       = Some [NotePrejuizoFiscal, NoteAdicoesLALUR 1000, NoteExclusoesLALUR 2000]"
proof -
  have loss: "r_profitBeforeTax (realBody lossData SERVICO_ANEXO_III DEFAULT_REAL_CONFIG lossLalur)
     + additions lossLalur - exclusions lossLalur \<le> 0"
    unfolding lossData_profitBeforeTax by (simp add: lossLalur_def)
  note inst = C1_real_profit_derivation
    [of lossData SERVICO_ANEXO_III DEFAULT_REAL_CONFIG lossLalur "[]" DEFAULT_PRESUMIDO_CONFIG
        DEFAULT_REFORM_CONFIG]
  from inst loss have
    "r_taxableIncome (realBody lossData SERVICO_ANEXO_III DEFAULT_REAL_CONFIG lossLalur) = 0
     \<and> taxIncome (breakdown (calculateReal lossData SERVICO_ANEXO_III DEFAULT_REAL_CONFIG lossLalur)) = 0
     \<and> resultNotes (calculateReal lossData SERVICO_ANEXO_III DEFAULT_REAL_CONFIG lossLalur)
         = Some ([NotePrejuizoFiscal]
                 @ (if additions lossLalur > 0 then [NoteAdicoesLALUR (additions lossLalur)] else [])
                 @ (if exclusions lossLalur > 0 then [NoteExclusoesLALUR (exclusions lossLalur)]
                    else []))"
    by blast
  with loss show ?thesis
    by (simp add: lossLalur_def)
qed

section \<open>Lucro Real: non-cumulative PIS and COFINS\<close>

text \<open>
  Claim C2, as amended. In \<open>calculateReal\<close> the debit of PIS and of COFINS is the
  revenue less deductions, floored at zero, times the rate of the tax; the credit is
  the credit base times the same rate, where the credit base is \<open>realCreditBase\<close> when
  the summary carries it, else the cost of goods for COMERCIO and INDUSTRIA, else 20% of
  the operating expenses; the payable of each tax is the maximum of zero and its debit
  less its credit, so it is never negative; and a credit base equal to the floored
  revenue less deductions makes both payables zero. While revenue is at least the
  deductions the floor does nothing: the debit is revenue less deductions times the
  rate, and a credit base equal to revenue less deductions makes both payables zero.
\<close>

theorem C2_real_pis_cofins_netting:
  "r_debitoPis (realBody data activity config lalur)
     = max 0 (revenueAnnual data - deductions data) * (pis config / 100)
   \<and> r_debitoCofins (realBody data activity config lalur)
     = max 0 (revenueAnnual data - deductions data) * (cofins config / 100)
   \<and> r_creditBase (realBody data activity config lalur)
     = (case realCreditBase data of
          Some b \<Rightarrow> b
        | None \<Rightarrow> (if activity = COMERCIO \<or> activity = INDUSTRIA then cogs data
                   else expenses data * 0.20))
   \<and> r_creditoPis (realBody data activity config lalur)
     = r_creditBase (realBody data activity config lalur) * (pis config / 100)
   \<and> r_creditoCofins (realBody data activity config lalur)
     = r_creditBase (realBody data activity config lalur) * (cofins config / 100)
   \<and> det_pis (detailed (calculateReal data activity config lalur))
     = max 0 (r_debitoPis (realBody data activity config lalur)
              - r_creditoPis (realBody data activity config lalur))
   \<and> det_cofins (detailed (calculateReal data activity config lalur))
     = max 0 (r_debitoCofins (realBody data activity config lalur)
              - r_creditoCofins (realBody data activity config lalur))
   \<and> 0 \<le> det_pis (detailed (calculateReal data activity config lalur))
   \<and> 0 \<le> det_cofins (detailed (calculateReal data activity config lalur))
   \<and> (r_creditBase (realBody data activity config lalur)
        = max 0 (revenueAnnual data - deductions data) \<longrightarrow>
        det_pis (detailed (calculateReal data activity config lalur)) = 0
        \<and> det_cofins (detailed (calculateReal data activity config lalur)) = 0)
   \<and> (deductions data \<le> revenueAnnual data \<longrightarrow>
        r_debitoPis (realBody data activity config lalur)
          = (revenueAnnual data - deductions data) * (pis config / 100)
        \<and> r_debitoCofins (realBody data activity config lalur)
          = (revenueAnnual data - deductions data) * (cofins config / 100))
   \<and> (deductions data \<le> revenueAnnual data
        \<and> r_creditBase (realBody data activity config lalur)
            = revenueAnnual data - deductions data \<longrightarrow>
        det_pis (detailed (calculateReal data activity config lalur)) = 0
        \<and> det_cofins (detailed (calculateReal data activity config lalur)) = 0)"
proof (intro conjI impI)
  show "r_debitoPis (realBody data activity config lalur)
     = max 0 (revenueAnnual data - deductions data) * (pis config / 100)"
    by (simp only: real_debito real_revenueBase)
  show "r_debitoCofins (realBody data activity config lalur)
     = max 0 (revenueAnnual data - deductions data) * (cofins config / 100)"
    by (simp only: real_debito real_revenueBase)
  show "r_creditBase (realBody data activity config lalur)
     = (case realCreditBase data of
          Some b \<Rightarrow> b
        | None \<Rightarrow> (if activity = COMERCIO \<or> activity = INDUSTRIA then cogs data
                   else expenses data * 0.20))"
    by (rule real_creditBase)
  show "r_creditoPis (realBody data activity config lalur)
     = r_creditBase (realBody data activity config lalur) * (pis config / 100)"
    by (rule real_credito)
  show "r_creditoCofins (realBody data activity config lalur)
     = r_creditBase (realBody data activity config lalur) * (cofins config / 100)"
    by (rule real_credito)
  show "det_pis (detailed (calculateReal data activity config lalur))
     = max 0 (r_debitoPis (realBody data activity config lalur)
              - r_creditoPis (realBody data activity config lalur))"
    by (simp only: real_payable)
  show "det_cofins (detailed (calculateReal data activity config lalur))
     = max 0 (r_debitoCofins (realBody data activity config lalur)
              - r_creditoCofins (realBody data activity config lalur))"
    by (simp only: real_payable)
  show "0 \<le> det_pis (detailed (calculateReal data activity config lalur))"
    by (simp add: real_payable)
  show "0 \<le> det_cofins (detailed (calculateReal data activity config lalur))"
    by (simp add: real_payable)
next
  assume "r_creditBase (realBody data activity config lalur)
        = max 0 (revenueAnnual data - deductions data)"
  then have eq: "r_creditBase (realBody data activity config lalur)
        = r_revenueBase (realBody data activity config lalur)"
    by (simp only: real_revenueBase)
  show "det_pis (detailed (calculateReal data activity config lalur)) = 0"
    by (simp add: real_payable real_debito real_credito eq)
  show "det_cofins (detailed (calculateReal data activity config lalur)) = 0"
    by (simp add: real_payable real_debito real_credito eq)
next
  assume le: "deductions data \<le> revenueAnnual data"
  then have m: "max 0 (revenueAnnual data - deductions data)
      = revenueAnnual data - deductions data"
    by simp
  show "r_debitoPis (realBody data activity config lalur)
          = (revenueAnnual data - deductions data) * (pis config / 100)"
    by (simp only: real_debito real_revenueBase m)
  show "r_debitoCofins (realBody data activity config lalur)
          = (revenueAnnual data - deductions data) * (cofins config / 100)"
    by (simp only: real_debito real_revenueBase m)
next
  assume a: "deductions data \<le> revenueAnnual data
        \<and> r_creditBase (realBody data activity config lalur)
            = revenueAnnual data - deductions data"
  then have m: "max 0 (revenueAnnual data - deductions data)
      = revenueAnnual data - deductions data"
    by simp
  from a have eq: "r_creditBase (realBody data activity config lalur)
        = r_revenueBase (realBody data activity config lalur)"
    by (simp only: real_revenueBase m)
  show "det_pis (detailed (calculateReal data activity config lalur)) = 0"
    by (simp add: real_payable real_debito real_credito eq)
  show "det_cofins (detailed (calculateReal data activity config lalur)) = 0"
    by (simp add: real_payable real_debito real_credito eq)
qed

theorem C2_real_pis_cofins_netting_witness:
  "deductions creditEqualsBaseData \<le> revenueAnnual creditEqualsBaseData
   \<and> r_creditBase (realBody creditEqualsBaseData SERVICO_ANEXO_III DEFAULT_REAL_CONFIG defaultLalur)
       = 900000
   \<and> r_debitoPis (realBody creditEqualsBaseData SERVICO_ANEXO_III DEFAULT_REAL_CONFIG defaultLalur)
       = 14850
   \<and> r_debitoCofins (realBody creditEqualsBaseData SERVICO_ANEXO_III DEFAULT_REAL_CONFIG defaultLalur)
       = 68400
   \<and> det_pis (detailed (calculateReal creditEqualsBaseData SERVICO_ANEXO_III DEFAULT_REAL_CONFIG
        defaultLalur)) = 0
   \<and> det_cofins (detailed (calculateReal creditEqualsBaseData SERVICO_ANEXO_III DEFAULT_REAL_CONFIG
        defaultLalur)) = 0"
proof -
  have le: "deductions creditEqualsBaseData \<le> revenueAnnual creditEqualsBaseData"
    by (simp add: creditEqualsBaseData_def zeroData_def)
  note inst = C2_real_pis_cofins_netting
    [of creditEqualsBaseData SERVICO_ANEXO_III DEFAULT_REAL_CONFIG defaultLalur]
  from inst have cb:
    "r_creditBase (realBody creditEqualsBaseData SERVICO_ANEXO_III DEFAULT_REAL_CONFIG defaultLalur)
       = (case realCreditBase creditEqualsBaseData of
            Some b \<Rightarrow> b
          | None \<Rightarrow> (if SERVICO_ANEXO_III = COMERCIO \<or> SERVICO_ANEXO_III = INDUSTRIA
                     then cogs creditEqualsBaseData
                     else expenses creditEqualsBaseData * 0.20))"
    by blast
  then have cb9:
    "r_creditBase (realBody creditEqualsBaseData SERVICO_ANEXO_III DEFAULT_REAL_CONFIG defaultLalur)
       = 900000"
    by (simp add: creditEqualsBaseData_def zeroData_def)
  then have eq:
    "r_creditBase (realBody creditEqualsBaseData SERVICO_ANEXO_III DEFAULT_REAL_CONFIG defaultLalur)
       = revenueAnnual creditEqualsBaseData - deductions creditEqualsBaseData"
    by (simp add: creditEqualsBaseData_def zeroData_def)
  from inst le eq have zero:
    "det_pis (detailed (calculateReal creditEqualsBaseData SERVICO_ANEXO_III DEFAULT_REAL_CONFIG
        defaultLalur)) = 0
     \<and> det_cofins (detailed (calculateReal creditEqualsBaseData SERVICO_ANEXO_III DEFAULT_REAL_CONFIG
        defaultLalur)) = 0"
    by blast
  from inst le have deb:
    "r_debitoPis (realBody creditEqualsBaseData SERVICO_ANEXO_III DEFAULT_REAL_CONFIG defaultLalur)
       = (revenueAnnual creditEqualsBaseData - deductions creditEqualsBaseData)
           * (pis DEFAULT_REAL_CONFIG / 100)
     \<and> r_debitoCofins (realBody creditEqualsBaseData SERVICO_ANEXO_III DEFAULT_REAL_CONFIG defaultLalur)
       = (revenueAnnual creditEqualsBaseData - deductions creditEqualsBaseData)
           * (cofins DEFAULT_REAL_CONFIG / 100)"
    by blast
  then have
    "r_debitoPis (realBody creditEqualsBaseData SERVICO_ANEXO_III DEFAULT_REAL_CONFIG defaultLalur)
       = 14850
     \<and> r_debitoCofins (realBody creditEqualsBaseData SERVICO_ANEXO_III DEFAULT_REAL_CONFIG defaultLalur)
       = 68400"
    by (simp add: creditEqualsBaseData_def zeroData_def DEFAULT_REAL_CONFIG_def)
  with le cb9 zero show ?thesis by blast
qed

theorem C2_debit_unfloored_counterexample:
  "r_debitoPis (realBody deductionsExceedData COMERCIO DEFAULT_REAL_CONFIG defaultLalur)
     \<noteq> (revenueAnnual deductionsExceedData - deductions deductionsExceedData)
         * (pis DEFAULT_REAL_CONFIG / 100)
   \<and> r_creditBase (realBody deductionsExceedData COMERCIO DEFAULT_REAL_CONFIG defaultLalur)
     = revenueAnnual deductionsExceedData - deductions deductionsExceedData
   \<and> det_pis (detailed (calculateReal deductionsExceedData COMERCIO DEFAULT_REAL_CONFIG defaultLalur))
     \<noteq> 0"
  by (simp add: real_payable real_debito real_credito real_creditBase real_revenueBase
      deductionsExceedData_def zeroData_def DEFAULT_REAL_CONFIG_def)

section \<open>Simples Nacional and Lucro Presumido: the stages of the computation\<close>

lemma simples_open_fields:
  assumes "\<not> revenueAnnual data > SIMPLES_LIMIT"
  shows "isBlocked (calculateSimples data activity) = None"
    and "regime (calculateSimples data activity) = SimplesNacional"
    and "det_fgts (detailed (calculateSimples data activity)) = payrollBase data * 0.08"
    and "det_cpp (detailed (calculateSimples data activity))
           = (if activity = SERVICO_ANEXO_IV then payrollBase data * 0.278 else 0)"
    and "taxSales (breakdown (calculateSimples data activity))
           = det_simplesDAS (detailed (calculateSimples data activity))"
    and "taxIncome (breakdown (calculateSimples data activity)) = 0"
    and "taxPayroll (breakdown (calculateSimples data activity))
           = det_cpp (detailed (calculateSimples data activity))"
    and "charges (breakdown (calculateSimples data activity))
           = det_fgts (detailed (calculateSimples data activity))
             + det_cpp (detailed (calculateSimples data activity))"
    and "totalTax (calculateSimples data activity)
           = det_simplesDAS (detailed (calculateSimples data activity))
             + det_cpp (detailed (calculateSimples data activity))
             + det_fgts (detailed (calculateSimples data activity))"
    and "effectiveRate (calculateSimples data activity)
           = js_times (js_div (totalTax (calculateSimples data activity)) (revenueAnnual data)) 100"
    and "det_simplesDAS (detailed (calculateSimples data activity))
           = revenueAnnual data *
               (if revenueAnnual data > 0
                then (revenueAnnual data
                        * (aliquota (findRange (snd (selectAnnex data activity))
                                       (revenueAnnual data)) / 100)
                      - deducao (findRange (snd (selectAnnex data activity))
                                   (revenueAnnual data)))
                     / revenueAnnual data
                else 0)"
  unfolding calculateSimples_open [OF assms]
  by (simp_all add: Let_def emptyDetailed_def)

lemma simples_blocked_fields:
  assumes "revenueAnnual data > SIMPLES_LIMIT"
  shows "isBlocked (calculateSimples data activity) = Some True"
    and "totalTax (calculateSimples data activity) = 0"
    and "effectiveRate (calculateSimples data activity) = Finite 0"
    and "breakdown (calculateSimples data activity)
           = \<lparr> taxSales = 0, taxIncome = 0, taxPayroll = 0, charges = 0 \<rparr>"
    and "detailed (calculateSimples data activity) = emptyDetailed"
  unfolding calculateSimples_blocked [OF assms]
  by (simp_all add: blockedSimples_def)

lemmas presumido_unfold = calculatePresumido_def presumidoBody_def Let_def
lemmas presumido_sel_simps = PresumidoLocals.select_convs TaxSimulationResult.select_convs
  TaxBreakdown.select_convs TaxDetailedBreakdown.select_convs

lemma presumido_bases:
  "p_baseIRPJ (presumidoBody data activity config)
     = (revenueAnnual data * (presuncaoIRPJ config / 100)) + financialRevenues data"
  "p_baseCSLL (presumidoBody data activity config)
     = (revenueAnnual data * (presuncaoCSLL config / 100)) + financialRevenues data"
  by (simp_all only: presumido_unfold presumido_sel_simps)

lemma presumido_income_tax:
  "det_irpj (detailed (calculatePresumido data activity config))
     = p_baseIRPJ (presumidoBody data activity config) * (irpj config / 100)"
  "det_irpjAdicional (detailed (calculatePresumido data activity config))
     = max 0 (p_baseIRPJ (presumidoBody data activity config) - THRESHOLD_ADICIONAL_IRPJ)
         * (irpjAdicional config / 100)"
  "det_csll (detailed (calculatePresumido data activity config))
     = p_baseCSLL (presumidoBody data activity config) * (csll config / 100)"
  "taxIncome (breakdown (calculatePresumido data activity config))
     = det_irpj (detailed (calculatePresumido data activity config))
       + det_irpjAdicional (detailed (calculatePresumido data activity config))
       + det_csll (detailed (calculatePresumido data activity config))"
  by (simp_all only: presumido_unfold presumido_sel_simps)

lemma presumido_sales:
  "det_pis (detailed (calculatePresumido data activity config))
     = revenueAnnual data * (pis config / 100)"
  "det_cofins (detailed (calculatePresumido data activity config))
     = revenueAnnual data * (cofins config / 100)"
  "det_ipi (detailed (calculatePresumido data activity config))
     = revenueAnnual data * (ipi config / 100)"
  "det_iss (detailed (calculatePresumido data activity config))
     = (if \<not> (activity = COMERCIO \<or> activity = INDUSTRIA)
        then revenueAnnual data * (iss config / 100) else 0)"
  "det_icms (detailed (calculatePresumido data activity config))
     = (if activity = COMERCIO \<or> activity = INDUSTRIA
        then revenueAnnual data * (icms config / 100) else 0)"
  "taxSales (breakdown (calculatePresumido data activity config))
     = det_pis (detailed (calculatePresumido data activity config))
       + det_cofins (detailed (calculatePresumido data activity config))
       + det_iss (detailed (calculatePresumido data activity config))
       + det_icms (detailed (calculatePresumido data activity config))
       + det_ipi (detailed (calculatePresumido data activity config))"
  by (simp_all only: presumido_unfold presumido_sel_simps)

lemma presumido_payroll:
  "det_cpp (detailed (calculatePresumido data activity config))
     = payrollBase data * (cpp config / 100)"
  "det_rat (detailed (calculatePresumido data activity config))
     = payrollBase data * (rat config / 100)"
  "det_inssTerceiros (detailed (calculatePresumido data activity config))
     = payrollBase data * (inssTerceiros config / 100)"
  "det_fgts (detailed (calculatePresumido data activity config))
     = payrollBase data * (fgts config / 100)"
  "taxPayroll (breakdown (calculatePresumido data activity config))
     = det_cpp (detailed (calculatePresumido data activity config))
       + det_rat (detailed (calculatePresumido data activity config))
       + det_inssTerceiros (detailed (calculatePresumido data activity config))"
  "charges (breakdown (calculatePresumido data activity config))
     = taxPayroll (breakdown (calculatePresumido data activity config))
       + det_fgts (detailed (calculatePresumido data activity config))"
  by (simp_all only: presumido_unfold presumido_sel_simps)

lemma presumido_totalTax:
  "totalTax (calculatePresumido data activity config)
     = taxIncome (breakdown (calculatePresumido data activity config))
       + taxSales (breakdown (calculatePresumido data activity config))
       + taxPayroll (breakdown (calculatePresumido data activity config))
       + det_fgts (detailed (calculatePresumido data activity config))"
  by (simp only: presumido_unfold presumido_sel_simps)

lemma presumido_other:
  "isBlocked (calculatePresumido data activity config) = None"
  "resultNotes (calculatePresumido data activity config) = None"
  "regime (calculatePresumido data activity config) = LucroPresumido"
  "det_pisFinancial (detailed (calculatePresumido data activity config)) = 0"
  "det_cofinsFinancial (detailed (calculatePresumido data activity config)) = 0"
  "effectiveRate (calculatePresumido data activity config)
     = js_times (js_div (totalTax (calculatePresumido data activity config))
                        (revenueAnnual data)) 100"
  by (simp_all only: presumido_unfold presumido_sel_simps)

lemmas presumido_stages = presumido_bases presumido_income_tax presumido_sales presumido_payroll
  presumido_totalTax

lemmas real_stages = real_totalTax real_income_tax real_profit real_totalSalesTax real_payable
  real_debito real_credito real_creditBase real_revenueBase real_flat_sales
  real_financial_taxes real_payroll

section \<open>Regime selector\<close>

lemma foldl_pickLower_snoc:
  "foldl pickLower x (rest @ [y]) = pickLower (foldl pickLower x rest) y"
  by simp

lemma foldl_pickLower_mem: "foldl pickLower x rest \<in> set (x # rest)"
proof (induction rest rule: rev_induct)
  case Nil
  then show ?case by simp
next
  case (snoc y rest)
  then show ?case by (auto simp: pickLower_def)
qed

lemma foldl_pickLower_le:
  "z \<in> set (x # rest) \<Longrightarrow> totalTax (foldl pickLower x rest) \<le> totalTax z"
proof (induction rest rule: rev_induct)
  case Nil
  then show ?case by simp
next
  case (snoc y rest)
  let ?b = "foldl pickLower x rest"
  from snoc.prems have z: "z \<in> set (x # rest) \<or> z = y" by auto
  show ?case
  proof (cases "totalTax ?b < totalTax y")
    case True
    then have "foldl pickLower x (rest @ [y]) = ?b"
      by (simp add: pickLower_def)
    moreover from z True snoc.IH have "totalTax ?b \<le> totalTax z" by auto
    ultimately show ?thesis by simp
  next
    case False
    then have "foldl pickLower x (rest @ [y]) = y"
      by (simp add: pickLower_def)
    moreover from z False snoc.IH have "totalTax y \<le> totalTax z" by auto
    ultimately show ?thesis by simp
  qed
qed

lemma foldl_pickLower_last:
  "last (filter (\<lambda>z. totalTax z = totalTax (foldl pickLower x rest)) (x # rest))
     = foldl pickLower x rest"
proof (induction rest rule: rev_induct)
  case Nil
  then show ?case by simp
next
  case (snoc y rest)
  let ?b = "foldl pickLower x rest"
  show ?case
  proof (cases "totalTax ?b < totalTax y")
    case True
    then have eq1: "foldl pickLower x (rest @ [y]) = ?b"
      by (simp add: pickLower_def)
    from True have eq2: "filter (\<lambda>z. totalTax z = totalTax ?b) (x # rest @ [y])
        = filter (\<lambda>z. totalTax z = totalTax ?b) (x # rest)"
      by auto
    show ?thesis by (simp only: eq1 eq2 snoc.IH)
  next
    case False
    then have "foldl pickLower x (rest @ [y]) = y"
      by (simp add: pickLower_def)
    then show ?thesis by simp
  qed
qed

lemma bestCurrentOf_empty:
  "allCurrentOf simples presumido realR = [] \<Longrightarrow> bestCurrentOf simples presumido realR = realR"
  by (simp add: bestCurrentOf_def)

lemma bestCurrentOf_nonempty:
  assumes "allCurrentOf simples presumido realR \<noteq> []"
  shows "bestCurrentOf simples presumido realR \<in> set (allCurrentOf simples presumido realR)"
    and "\<And>z. z \<in> set (allCurrentOf simples presumido realR)
           \<Longrightarrow> totalTax (bestCurrentOf simples presumido realR) \<le> totalTax z"
    and "bestCurrentOf simples presumido realR
           = last (filter (\<lambda>z. totalTax z = totalTax (bestCurrentOf simples presumido realR))
                     (allCurrentOf simples presumido realR))"
proof -
  from assms obtain x rest where xs: "allCurrentOf simples presumido realR = x # rest"
    by (cases "allCurrentOf simples presumido realR") auto
  then have b: "bestCurrentOf simples presumido realR = foldl pickLower x rest"
    by (simp add: bestCurrentOf_def)
  show "bestCurrentOf simples presumido realR \<in> set (allCurrentOf simples presumido realR)"
    unfolding b xs by (rule foldl_pickLower_mem)
  show "\<And>z. z \<in> set (allCurrentOf simples presumido realR)
           \<Longrightarrow> totalTax (bestCurrentOf simples presumido realR) \<le> totalTax z"
    unfolding b xs by (rule foldl_pickLower_le)
  show "bestCurrentOf simples presumido realR
           = last (filter (\<lambda>z. totalTax z = totalTax (bestCurrentOf simples presumido realR))
                     (allCurrentOf simples presumido realR))"
    unfolding b xs by (rule foldl_pickLower_last [symmetric])
qed

lemma bestCurrentOf_cases:
  "bestCurrentOf simples presumido realR \<in> {simples, presumido, realR}"
proof (cases "allCurrentOf simples presumido realR = []")
  case True
  then show ?thesis by (simp add: bestCurrentOf_empty)
next
  case False
  from bestCurrentOf_nonempty(1) [OF False] show ?thesis
    by (auto simp: allCurrentOf_def split: if_splits)
qed

text \<open>
  Claim C4, as amended. The selector drops the results whose \<open>isBlocked\<close> is true. When
  none is left the baseline is the Lucro Real result, whatever its block status.
  Otherwise the baseline is one of the results left, its total tax is the least among
  them, and among the results left with that least total tax it is the last one in the
  order Simples, Presumido, Real. With Simples blocked, Presumido at 10000 and Real at
  8000 the baseline is Real; with Simples at 5000, Presumido at 10000 and Real blocked
  the baseline is Simples.
\<close>

theorem C4_selector:
  "allCurrentOf simples presumido realR
     = filter (\<lambda>r. isBlocked r \<noteq> Some True) [simples, presumido, realR]
   \<and> (allCurrentOf simples presumido realR = [] \<longrightarrow>
        bestCurrentOf simples presumido realR = realR)
   \<and> (allCurrentOf simples presumido realR \<noteq> [] \<longrightarrow>
        bestCurrentOf simples presumido realR \<in> set (allCurrentOf simples presumido realR)
        \<and> (\<forall>z \<in> set (allCurrentOf simples presumido realR).
              totalTax (bestCurrentOf simples presumido realR) \<le> totalTax z)
        \<and> bestCurrentOf simples presumido realR
            = last (filter (\<lambda>z. totalTax z = totalTax (bestCurrentOf simples presumido realR))
                      (allCurrentOf simples presumido realR)))
   \<and> (isBlocked simples = Some True \<and> isBlocked presumido \<noteq> Some True
        \<and> isBlocked realR \<noteq> Some True \<and> totalTax presumido = 10000 \<and> totalTax realR = 8000
        \<longrightarrow> bestCurrentOf simples presumido realR = realR)
   \<and> (isBlocked simples \<noteq> Some True \<and> isBlocked presumido \<noteq> Some True
        \<and> isBlocked realR = Some True \<and> totalTax simples = 5000 \<and> totalTax presumido = 10000
        \<longrightarrow> bestCurrentOf simples presumido realR = simples)
   \<and> res_bestCurrent (results data activity presumidoConfig realConfig reformConfig ls)
     = bestCurrentOf (calculateSimples data activity)
         (calculatePresumido data activity presumidoConfig)
         (calculateReal data activity realConfig (lalurAdjustmentsOf ls))"
proof (intro conjI impI ballI)
  show "allCurrentOf simples presumido realR
     = filter (\<lambda>r. isBlocked r \<noteq> Some True) [simples, presumido, realR]"
    by (simp only: allCurrentOf_def)
next
  assume "allCurrentOf simples presumido realR = []"
  then show "bestCurrentOf simples presumido realR = realR"
    by (rule bestCurrentOf_empty)
next
  assume ne: "allCurrentOf simples presumido realR \<noteq> []"
  show "bestCurrentOf simples presumido realR \<in> set (allCurrentOf simples presumido realR)"
    by (rule bestCurrentOf_nonempty(1) [OF ne])
  show "bestCurrentOf simples presumido realR
            = last (filter (\<lambda>z. totalTax z = totalTax (bestCurrentOf simples presumido realR))
                      (allCurrentOf simples presumido realR))"
    by (rule bestCurrentOf_nonempty(3) [OF ne])
  fix z
  assume "z \<in> set (allCurrentOf simples presumido realR)"
  then show "totalTax (bestCurrentOf simples presumido realR) \<le> totalTax z"
    by (rule bestCurrentOf_nonempty(2) [OF ne])
next
  assume "isBlocked simples = Some True \<and> isBlocked presumido \<noteq> Some True
        \<and> isBlocked realR \<noteq> Some True \<and> totalTax presumido = 10000 \<and> totalTax realR = 8000"
  then show "bestCurrentOf simples presumido realR = realR"
    by (simp add: bestCurrentOf_def allCurrentOf_def pickLower_def)
next
  assume "isBlocked simples \<noteq> Some True \<and> isBlocked presumido \<noteq> Some True
        \<and> isBlocked realR = Some True \<and> totalTax simples = 5000 \<and> totalTax presumido = 10000"
  then show "bestCurrentOf simples presumido realR = simples"
    by (simp add: bestCurrentOf_def allCurrentOf_def pickLower_def)
next
  show "res_bestCurrent (results data activity presumidoConfig realConfig reformConfig ls)
     = bestCurrentOf (calculateSimples data activity)
         (calculatePresumido data activity presumidoConfig)
         (calculateReal data activity realConfig (lalurAdjustmentsOf ls))"
    by (simp only: results_def Let_def DashboardResults.select_convs)
qed

theorem C4_selector_witness:
  "bestCurrentOf (resultWith SimplesNacional 0 (Some True)) (resultWith LucroPresumido 10000 None)
       (resultWith LucroReal 8000 None)
     = resultWith LucroReal 8000 None
   \<and> bestCurrentOf (resultWith SimplesNacional 5000 None) (resultWith LucroPresumido 10000 None)
       (resultWith LucroReal 0 (Some True))
     = resultWith SimplesNacional 5000 None
   \<and> bestCurrentOf (resultWith SimplesNacional 0 (Some True)) (resultWith LucroPresumido 0 (Some True))
       (resultWith LucroReal 7000 (Some True))
     = resultWith LucroReal 7000 (Some True)
   \<and> totalTax (bestCurrentOf (resultWith SimplesNacional 5000 None)
       (resultWith LucroPresumido 10000 None) (resultWith LucroReal 0 (Some True)))
     \<le> totalTax (resultWith LucroPresumido 10000 None)"
proof -
  let ?A1 = "resultWith SimplesNacional 0 (Some True)"
  let ?B = "resultWith LucroPresumido 10000 None"
  let ?C1 = "resultWith LucroReal 8000 None"
  let ?A2 = "resultWith SimplesNacional 5000 None"
  let ?C2 = "resultWith LucroReal 0 (Some True)"
  let ?B3 = "resultWith LucroPresumido 0 (Some True)"
  let ?C3 = "resultWith LucroReal 7000 (Some True)"
  have h1: "isBlocked ?A1 = Some True \<and> isBlocked ?B \<noteq> Some True
        \<and> isBlocked ?C1 \<noteq> Some True \<and> totalTax ?B = 10000 \<and> totalTax ?C1 = 8000"
    by (simp add: resultWith_def)
  have h2: "isBlocked ?A2 \<noteq> Some True \<and> isBlocked ?B \<noteq> Some True
        \<and> isBlocked ?C2 = Some True \<and> totalTax ?A2 = 5000 \<and> totalTax ?B = 10000"
    by (simp add: resultWith_def)
  have h3: "allCurrentOf ?A1 ?B3 ?C3 = []"
    by (simp add: allCurrentOf_def resultWith_def)
  have h4: "allCurrentOf ?A2 ?B ?C2 \<noteq> []" "?B \<in> set (allCurrentOf ?A2 ?B ?C2)"
    by (simp_all add: allCurrentOf_def resultWith_def)
  from C4_selector [of ?A1 ?B ?C1] h1 have "bestCurrentOf ?A1 ?B ?C1 = ?C1"
    by blast
  moreover from C4_selector [of ?A2 ?B ?C2] h2 have "bestCurrentOf ?A2 ?B ?C2 = ?A2"
    by blast
  moreover from C4_selector [of ?A1 ?B3 ?C3] h3 have "bestCurrentOf ?A1 ?B3 ?C3 = ?C3"
    by blast
  moreover from C4_selector [of ?A2 ?B ?C2] h4
  have "totalTax (bestCurrentOf ?A2 ?B ?C2) \<le> totalTax ?B"
    by blast
  ultimately show ?thesis by blast
qed

lemma emptyLedger_totals:
  "totalTax (calculateSimples zeroData COMERCIO) = 0"
  "totalTax (calculatePresumido zeroData COMERCIO DEFAULT_PRESUMIDO_CONFIG) = 0"
  "totalTax (calculateReal zeroData COMERCIO DEFAULT_REAL_CONFIG (lalurAdjustmentsOf ([] :: DRELineItem list))) = 0"
  "isBlocked (calculateSimples zeroData COMERCIO) = None"
  by (simp_all add: simples_open_fields presumido_stages real_stages zeroData_def SIMPLES_LIMIT_def
      THRESHOLD_ADICIONAL_IRPJ_def lalurAdjustmentsOf_def)

theorem C4_tie_keeps_last_counterexample:
  "isBlocked (res_simples emptyLedgerResults) \<noteq> Some True
   \<and> totalTax (res_simples emptyLedgerResults) = totalTax (res_real emptyLedgerResults)
   \<and> regime (res_simples emptyLedgerResults) = SimplesNacional
   \<and> regime (res_bestCurrent emptyLedgerResults) = LucroReal
   \<and> bestCurrentOf (resultWith SimplesNacional 5000 None) (resultWith LucroPresumido 5000 None)
        (resultWith LucroReal 9000 None)
      = resultWith LucroPresumido 5000 None
   \<and> resultWith LucroPresumido 5000 None \<noteq> resultWith SimplesNacional 5000 None"
proof -
  have r: "res_simples emptyLedgerResults = calculateSimples zeroData COMERCIO"
    "res_real emptyLedgerResults
       = calculateReal zeroData COMERCIO DEFAULT_REAL_CONFIG
           (lalurAdjustmentsOf ([] :: DRELineItem list))"
    "res_bestCurrent emptyLedgerResults
       = bestCurrentOf (calculateSimples zeroData COMERCIO)
           (calculatePresumido zeroData COMERCIO DEFAULT_PRESUMIDO_CONFIG)
           (calculateReal zeroData COMERCIO DEFAULT_REAL_CONFIG
             (lalurAdjustmentsOf ([] :: DRELineItem list)))"
    by (simp_all only: emptyLedgerResults_def results_def Let_def DashboardResults.select_convs)
  have nb: "\<not> revenueAnnual zeroData > SIMPLES_LIMIT"
    by (simp add: zeroData_def SIMPLES_LIMIT_def)
  have best: "bestCurrentOf (calculateSimples zeroData COMERCIO)
           (calculatePresumido zeroData COMERCIO DEFAULT_PRESUMIDO_CONFIG)
           (calculateReal zeroData COMERCIO DEFAULT_REAL_CONFIG
             (lalurAdjustmentsOf ([] :: DRELineItem list)))
      = calculateReal zeroData COMERCIO DEFAULT_REAL_CONFIG
          (lalurAdjustmentsOf ([] :: DRELineItem list))"
    by (simp add: bestCurrentOf_def allCurrentOf_def pickLower_def emptyLedger_totals
        presumido_other real_notes)
  have "isBlocked (res_simples emptyLedgerResults) \<noteq> Some True"
    by (simp add: r emptyLedger_totals)
  moreover have "totalTax (res_simples emptyLedgerResults) = totalTax (res_real emptyLedgerResults)"
    by (simp add: r emptyLedger_totals)
  moreover have "regime (res_simples emptyLedgerResults) = SimplesNacional"
    unfolding r by (rule simples_open_fields(2) [OF nb])
  moreover have "regime (res_bestCurrent emptyLedgerResults) = LucroReal"
    unfolding r best by (rule real_notes)
  moreover have "bestCurrentOf (resultWith SimplesNacional 5000 None)
        (resultWith LucroPresumido 5000 None) (resultWith LucroReal 9000 None)
      = resultWith LucroPresumido 5000 None"
    by (simp add: bestCurrentOf_def allCurrentOf_def pickLower_def resultWith_def)
  moreover have "resultWith LucroPresumido 5000 None \<noteq> resultWith SimplesNacional 5000 None"
    by (simp add: resultWith_def)
  ultimately show ?thesis by blast
qed

section \<open>Reforma Tributaria: the stages of the computation\<close>

lemma creditStep_eligible:
  "creditStep reformConfig (ibsCredit, cbsCredit) line
     = (ibsCredit + specEligibleAmount line * (ibsRate reformConfig / 100),
        cbsCredit + specEligibleAmount line * (cbsRate reformConfig / 100))"
  by (auto simp: creditStep_def specEligibleAmount_def Let_def split: option.splits)

lemma foldl_creditStep:
  "foldl (creditStep reformConfig) (ibsCredit, cbsCredit) ls
     = (ibsCredit + (\<Sum>l \<leftarrow> ls. specEligibleAmount l * (ibsRate reformConfig / 100)),
        cbsCredit + (\<Sum>l \<leftarrow> ls. specEligibleAmount l * (cbsRate reformConfig / 100)))"
  by (induction ls arbitrary: ibsCredit cbsCredit) (simp_all add: creditStep_eligible add.assoc)

lemmas reform_unfold = calculateReform_def Let_def case_prod_beta
lemmas reform_sel_simps = TaxSimulationResult.select_convs ReformSimulationResult.select_convs
  TaxBreakdown.select_convs

lemma reform_credits:
  "creditIBS (calculateReform data ls reformConfig best)
     = fst (foldl (creditStep reformConfig) (0, 0) ls)"
  "creditCBS (calculateReform data ls reformConfig best)
     = snd (foldl (creditStep reformConfig) (0, 0) ls)"
  "totalCredits (calculateReform data ls reformConfig best)
     = creditIBS (calculateReform data ls reformConfig best)
       + creditCBS (calculateReform data ls reformConfig best)"
  by (simp_all only: reform_unfold reform_sel_simps)

lemma reform_credit_sums:
  "creditIBS (calculateReform data ls reformConfig best)
     = (\<Sum>l \<leftarrow> ls. specEligibleAmount l * (ibsRate reformConfig / 100))"
  "creditCBS (calculateReform data ls reformConfig best)
     = (\<Sum>l \<leftarrow> ls. specEligibleAmount l * (cbsRate reformConfig / 100))"
  by (simp_all only: reform_credits foldl_creditStep fst_conv snd_conv add_0_left)

lemma reform_debits:
  "debitIBS (calculateReform data ls reformConfig best)
     = max 0 (revenueAnnual data - deductions data) * (ibsRate reformConfig / 100)"
  "debitCBS (calculateReform data ls reformConfig best)
     = max 0 (revenueAnnual data - deductions data) * (cbsRate reformConfig / 100)"
  by (simp_all only: reform_unfold reform_sel_simps)

lemma reform_payables:
  "det_ibs (detailed (calculateReform data ls reformConfig best))
     = Some (max 0 (debitIBS (calculateReform data ls reformConfig best)
                    - creditIBS (calculateReform data ls reformConfig best)))"
  "det_cbs (detailed (calculateReform data ls reformConfig best))
     = Some (max 0 (debitCBS (calculateReform data ls reformConfig best)
                    - creditCBS (calculateReform data ls reformConfig best)))"
  "det_selectiveTax (detailed (calculateReform data ls reformConfig best))
     = Some (max 0 (revenueAnnual data - deductions data) * (selectiveTaxRate reformConfig / 100))"
  by (simp_all add: reform_unfold emptyDetailed_def)

lemma reform_taxSales:
  "taxSales (breakdown (calculateReform data ls reformConfig best))
     = max 0 (debitIBS (calculateReform data ls reformConfig best)
              - creditIBS (calculateReform data ls reformConfig best))
       + max 0 (debitCBS (calculateReform data ls reformConfig best)
                - creditCBS (calculateReform data ls reformConfig best))
       + max 0 (revenueAnnual data - deductions data) * (selectiveTaxRate reformConfig / 100)"
  by (simp only: reform_unfold reform_sel_simps)

lemma reform_carry_over:
  "taxIncome (breakdown (calculateReform data ls reformConfig best)) = taxIncome (breakdown best)"
  "taxPayroll (breakdown (calculateReform data ls reformConfig best)) = taxPayroll (breakdown best)"
  "charges (breakdown (calculateReform data ls reformConfig best)) = charges (breakdown best)"
  by (simp_all only: reform_unfold reform_sel_simps)

lemma reform_totalTax:
  "totalTax (calculateReform data ls reformConfig best)
     = taxSales (breakdown (calculateReform data ls reformConfig best))
       + taxIncome (breakdown best) + taxPayroll (breakdown best) + charges (breakdown best)"
  by (simp only: reform_unfold reform_sel_simps)

lemma reform_effectiveRate:
  "effectiveRate (calculateReform data ls reformConfig best)
     = js_times (js_div (totalTax (calculateReform data ls reformConfig best))
                        (revenueAnnual data)) 100"
  by (simp only: reform_unfold reform_sel_simps)

lemma results_reform:
  "res_reform (results data activity presumidoConfig realConfig reformConfig ls)
     = calculateReform data ls reformConfig
         (res_bestCurrent (results data activity presumidoConfig realConfig reformConfig ls))"
  by (simp only: results_def Let_def DashboardResults.select_convs)

section \<open>Reforma Tributaria: credits and netting\<close>

text \<open>
  Claim C5. In \<open>calculateReform\<close> one round of the loop over the lines adds, for an
  ANALYTICAL line tagged CUSTO or DESPESA whose credit percentage \<open>p\<close> is greater than
  zero, the eligible amount (the absolute value of the line times \<open>p / 100\<close>) times the
  IBS rate to the IBS credit and times the CBS rate to the CBS credit, and leaves both
  credits as they are for any other line, a line with credit rate 0 included. The credit
  of each leg is therefore the sum over all lines of the eligible amount times the rate
  of the leg. The payable of each leg is the maximum of zero and its debit less its
  credit, and the total VAT is the sum of both payables and the selective tax, which
  has no credit. A single expense line of value -100,000 with credit rate 50% has the
  eligible amount 50,000 and yields, at the default rates 17.5% and 9%, an IBS credit of
  8,750 and a CBS credit of 4,500.
\<close>

theorem C5_reform_credits:
  "(lineType line = ANALYTICAL \<and> (tag line = Some CUSTO \<or> tag line = Some DESPESA)
      \<and> reformCreditRate line = Some p \<and> 0 < p \<longrightarrow>
      specEligibleAmount line = \<bar>lineValue line\<bar> * (p / 100)
      \<and> creditStep reformConfig (ibsCredit, cbsCredit) line
          = (ibsCredit + \<bar>lineValue line\<bar> * (p / 100) * (ibsRate reformConfig / 100),
             cbsCredit + \<bar>lineValue line\<bar> * (p / 100) * (cbsRate reformConfig / 100)))
   \<and> (\<not> (lineType line = ANALYTICAL \<and> (tag line = Some CUSTO \<or> tag line = Some DESPESA))
        \<or> reformCreditRate line = None \<or> reformCreditRate line = Some 0 \<longrightarrow>
      specEligibleAmount line = 0
      \<and> creditStep reformConfig (ibsCredit, cbsCredit) line = (ibsCredit, cbsCredit))
   \<and> creditIBS (calculateReform data ls reformConfig best)
     = (\<Sum>l \<leftarrow> ls. specEligibleAmount l * (ibsRate reformConfig / 100))
   \<and> creditCBS (calculateReform data ls reformConfig best)
     = (\<Sum>l \<leftarrow> ls. specEligibleAmount l * (cbsRate reformConfig / 100))
   \<and> det_ibs (detailed (calculateReform data ls reformConfig best))
     = Some (max 0 (debitIBS (calculateReform data ls reformConfig best)
                    - creditIBS (calculateReform data ls reformConfig best)))
   \<and> det_cbs (detailed (calculateReform data ls reformConfig best))
     = Some (max 0 (debitCBS (calculateReform data ls reformConfig best)
                    - creditCBS (calculateReform data ls reformConfig best)))
   \<and> det_selectiveTax (detailed (calculateReform data ls reformConfig best))
     = Some (max 0 (revenueAnnual data - deductions data) * (selectiveTaxRate reformConfig / 100))
   \<and> taxSales (breakdown (calculateReform data ls reformConfig best))
     = max 0 (debitIBS (calculateReform data ls reformConfig best)
              - creditIBS (calculateReform data ls reformConfig best))
       + max 0 (debitCBS (calculateReform data ls reformConfig best)
                - creditCBS (calculateReform data ls reformConfig best))
       + max 0 (revenueAnnual data - deductions data) * (selectiveTaxRate reformConfig / 100)
   \<and> (lineValue line = - 100000 \<and> lineType line = ANALYTICAL \<and> tag line = Some DESPESA
        \<and> reformCreditRate line = Some 50 \<longrightarrow>
      specEligibleAmount line = 50000
      \<and> creditIBS (calculateReform data [line] DEFAULT_REFORM_CONFIG best) = 8750
      \<and> creditCBS (calculateReform data [line] DEFAULT_REFORM_CONFIG best) = 4500)"
proof (intro conjI impI)
  assume q: "lineType line = ANALYTICAL \<and> (tag line = Some CUSTO \<or> tag line = Some DESPESA)
      \<and> reformCreditRate line = Some p \<and> 0 < p"
  then show "specEligibleAmount line = \<bar>lineValue line\<bar> * (p / 100)"
    by (simp add: specEligibleAmount_def)
  from q show "creditStep reformConfig (ibsCredit, cbsCredit) line
          = (ibsCredit + \<bar>lineValue line\<bar> * (p / 100) * (ibsRate reformConfig / 100),
             cbsCredit + \<bar>lineValue line\<bar> * (p / 100) * (cbsRate reformConfig / 100))"
    by (simp add: creditStep_def Let_def)
next
  assume n: "\<not> (lineType line = ANALYTICAL \<and> (tag line = Some CUSTO \<or> tag line = Some DESPESA))
        \<or> reformCreditRate line = None \<or> reformCreditRate line = Some 0"
  then show "specEligibleAmount line = 0"
    by (auto simp: specEligibleAmount_def split: option.splits)
  from n show "creditStep reformConfig (ibsCredit, cbsCredit) line = (ibsCredit, cbsCredit)"
    by (auto simp: creditStep_def Let_def)
next
  show "creditIBS (calculateReform data ls reformConfig best)
     = (\<Sum>l \<leftarrow> ls. specEligibleAmount l * (ibsRate reformConfig / 100))"
    by (rule reform_credit_sums)
  show "creditCBS (calculateReform data ls reformConfig best)
     = (\<Sum>l \<leftarrow> ls. specEligibleAmount l * (cbsRate reformConfig / 100))"
    by (rule reform_credit_sums)
  show "det_ibs (detailed (calculateReform data ls reformConfig best))
     = Some (max 0 (debitIBS (calculateReform data ls reformConfig best)
                    - creditIBS (calculateReform data ls reformConfig best)))"
    by (rule reform_payables)
  show "det_cbs (detailed (calculateReform data ls reformConfig best))
     = Some (max 0 (debitCBS (calculateReform data ls reformConfig best)
                    - creditCBS (calculateReform data ls reformConfig best)))"
    by (rule reform_payables)
  show "det_selectiveTax (detailed (calculateReform data ls reformConfig best))
     = Some (max 0 (revenueAnnual data - deductions data) * (selectiveTaxRate reformConfig / 100))"
    by (rule reform_payables)
  show "taxSales (breakdown (calculateReform data ls reformConfig best))
     = max 0 (debitIBS (calculateReform data ls reformConfig best)
              - creditIBS (calculateReform data ls reformConfig best))
       + max 0 (debitCBS (calculateReform data ls reformConfig best)
                - creditCBS (calculateReform data ls reformConfig best))
       + max 0 (revenueAnnual data - deductions data) * (selectiveTaxRate reformConfig / 100)"
    by (rule reform_taxSales)
next
  assume e: "lineValue line = - 100000 \<and> lineType line = ANALYTICAL \<and> tag line = Some DESPESA
        \<and> reformCreditRate line = Some 50"
  then show el: "specEligibleAmount line = 50000"
    by (simp add: specEligibleAmount_def)
  show "creditIBS (calculateReform data [line] DEFAULT_REFORM_CONFIG best) = 8750"
    by (simp add: reform_credit_sums el DEFAULT_REFORM_CONFIG_def)
  show "creditCBS (calculateReform data [line] DEFAULT_REFORM_CONFIG best) = 4500"
    by (simp add: reform_credit_sums el DEFAULT_REFORM_CONFIG_def)
qed

theorem C5_reform_credits_witness:
  "specEligibleAmount expenseLine50 = 50000
   \<and> creditIBS (calculateReform scenarioData [expenseLine50] DEFAULT_REFORM_CONFIG
        (calculateReal scenarioData SERVICO_ANEXO_III DEFAULT_REAL_CONFIG defaultLalur)) = 8750
   \<and> creditCBS (calculateReform scenarioData [expenseLine50] DEFAULT_REFORM_CONFIG
        (calculateReal scenarioData SERVICO_ANEXO_III DEFAULT_REAL_CONFIG defaultLalur)) = 4500
   \<and> creditStep DEFAULT_REFORM_CONFIG (0, 0) expenseLine50 = (8750, 4500)
   \<and> creditStep DEFAULT_REFORM_CONFIG (8750, 4500) (expenseLine50 \<lparr> reformCreditRate := Some 0 \<rparr>)
       = (8750, 4500)"
proof -
  let ?best = "calculateReal scenarioData SERVICO_ANEXO_III DEFAULT_REAL_CONFIG defaultLalur"
  let ?zero = "expenseLine50 \<lparr> reformCreditRate := Some 0 \<rparr>"
  have e: "lineValue expenseLine50 = - 100000 \<and> lineType expenseLine50 = ANALYTICAL
      \<and> tag expenseLine50 = Some DESPESA \<and> reformCreditRate expenseLine50 = Some 50"
    by (simp add: expenseLine50_def)
  have q: "lineType expenseLine50 = ANALYTICAL
      \<and> (tag expenseLine50 = Some CUSTO \<or> tag expenseLine50 = Some DESPESA)
      \<and> reformCreditRate expenseLine50 = Some 50 \<and> (0::real) < 50"
    by (simp add: expenseLine50_def)
  have z: "\<not> (lineType ?zero = ANALYTICAL \<and> (tag ?zero = Some CUSTO \<or> tag ?zero = Some DESPESA))
        \<or> reformCreditRate ?zero = None \<or> reformCreditRate ?zero = Some 0"
    by simp
  from C5_reform_credits [of expenseLine50 50 DEFAULT_REFORM_CONFIG 0 0 scenarioData "[]" ?best] e
  have "specEligibleAmount expenseLine50 = 50000
      \<and> creditIBS (calculateReform scenarioData [expenseLine50] DEFAULT_REFORM_CONFIG ?best) = 8750
      \<and> creditCBS (calculateReform scenarioData [expenseLine50] DEFAULT_REFORM_CONFIG ?best) = 4500"
    by blast
  moreover
  from C5_reform_credits [of expenseLine50 50 DEFAULT_REFORM_CONFIG 0 0 scenarioData "[]" ?best] q
  have "creditStep DEFAULT_REFORM_CONFIG (0, 0) expenseLine50
      = (0 + \<bar>lineValue expenseLine50\<bar> * (50 / 100) * (ibsRate DEFAULT_REFORM_CONFIG / 100),
         0 + \<bar>lineValue expenseLine50\<bar> * (50 / 100) * (cbsRate DEFAULT_REFORM_CONFIG / 100))"
    by blast
  then have "creditStep DEFAULT_REFORM_CONFIG (0, 0) expenseLine50 = (8750, 4500)"
    by (simp add: expenseLine50_def DEFAULT_REFORM_CONFIG_def)
  moreover
  from C5_reform_credits [of ?zero 50 DEFAULT_REFORM_CONFIG 8750 4500 scenarioData "[]" ?best] z
  have "creditStep DEFAULT_REFORM_CONFIG (8750, 4500) ?zero = (8750, 4500)"
    by blast
  ultimately show ?thesis by blast
qed

section \<open>Reforma Tributaria: amounts carried over from the baseline\<close>

text \<open>
  Claim C6. The income-tax, payroll-tax and employer-charges fields of the breakdown of
  the reform result are the fields of the breakdown of the baseline passed to
  \<open>calculateReform\<close>, unchanged, and the total tax of the reform result is its total VAT
  (the sales-tax field of its breakdown) plus these three amounts. In the dashboard the
  baseline passed is the result chosen by the selector.
\<close>

theorem C6_reform_carry_over:
  "taxIncome (breakdown (calculateReform data ls reformConfig best)) = taxIncome (breakdown best)
   \<and> taxPayroll (breakdown (calculateReform data ls reformConfig best)) = taxPayroll (breakdown best)
   \<and> charges (breakdown (calculateReform data ls reformConfig best)) = charges (breakdown best)
   \<and> totalTax (calculateReform data ls reformConfig best)
     = taxSales (breakdown (calculateReform data ls reformConfig best))
       + taxIncome (breakdown best) + taxPayroll (breakdown best) + charges (breakdown best)
   \<and> res_reform (results data activity presumidoConfig realConfig reformConfig ls)
     = calculateReform data ls reformConfig
         (bestCurrentOf (calculateSimples data activity)
            (calculatePresumido data activity presumidoConfig)
            (calculateReal data activity realConfig (lalurAdjustmentsOf ls)))"
proof (intro conjI)
  show "taxIncome (breakdown (calculateReform data ls reformConfig best)) = taxIncome (breakdown best)"
    by (rule reform_carry_over)
  show "taxPayroll (breakdown (calculateReform data ls reformConfig best)) = taxPayroll (breakdown best)"
    by (rule reform_carry_over)
  show "charges (breakdown (calculateReform data ls reformConfig best)) = charges (breakdown best)"
    by (rule reform_carry_over)
  show "totalTax (calculateReform data ls reformConfig best)
     = taxSales (breakdown (calculateReform data ls reformConfig best))
       + taxIncome (breakdown best) + taxPayroll (breakdown best) + charges (breakdown best)"
    by (rule reform_totalTax)
  show "res_reform (results data activity presumidoConfig realConfig reformConfig ls)
     = calculateReform data ls reformConfig
         (bestCurrentOf (calculateSimples data activity)
            (calculatePresumido data activity presumidoConfig)
            (calculateReal data activity realConfig (lalurAdjustmentsOf ls)))"
    by (simp only: results_def Let_def DashboardResults.select_convs)
qed

section \<open>Effective rate at zero revenue\<close>

lemma noRevenue_totals:
  "totalTax (calculateSimples noRevenueData COMERCIO) = 80"
  "totalTax (calculatePresumido noRevenueData COMERCIO DEFAULT_PRESUMIDO_CONFIG) = 358"
  "totalTax (calculateReal noRevenueData COMERCIO DEFAULT_REAL_CONFIG defaultLalur) = 358"
  by (simp_all add: simples_open_fields presumido_stages real_stages noRevenueData_def
      zeroData_def SIMPLES_LIMIT_def THRESHOLD_ADICIONAL_IRPJ_def defaultLalur_def
      DEFAULT_PRESUMIDO_CONFIG_def DEFAULT_REAL_CONFIG_def js_or0_def)

lemma emptyLedger_real_default:
  "totalTax (calculateReal zeroData COMERCIO DEFAULT_REAL_CONFIG defaultLalur) = 0"
  by (simp add: real_stages zeroData_def THRESHOLD_ADICIONAL_IRPJ_def defaultLalur_def)

text \<open>
  Claim C8 asks for an effective rate of 0 whenever the annual revenue is zero or
  negative. The calculators divide the total tax by the annual revenue without a guard.
  With no revenue and a payroll base of 1000 the total tax is positive (80 in Simples
  Nacional, 358 in Lucro Presumido and in Lucro Real with the default rates), so the
  effective rate of each calculator is positive infinity; with an empty summary the
  total tax is zero as well and the effective rate is NaN.
\<close>

theorem C8_effective_rate_unguarded:
  "revenueAnnual noRevenueData = 0
   \<and> effectiveRate (calculateSimples noRevenueData COMERCIO) = PosInfinity
   \<and> effectiveRate (calculatePresumido noRevenueData COMERCIO DEFAULT_PRESUMIDO_CONFIG)
       = PosInfinity
   \<and> effectiveRate (calculateReal noRevenueData COMERCIO DEFAULT_REAL_CONFIG defaultLalur)
       = PosInfinity
   \<and> revenueAnnual zeroData = 0
   \<and> effectiveRate (calculateSimples zeroData COMERCIO) = NaN
   \<and> effectiveRate (calculatePresumido zeroData COMERCIO DEFAULT_PRESUMIDO_CONFIG) = NaN
   \<and> effectiveRate (calculateReal zeroData COMERCIO DEFAULT_REAL_CONFIG defaultLalur) = NaN"
proof -
  have nb: "\<not> revenueAnnual noRevenueData > SIMPLES_LIMIT" "\<not> revenueAnnual zeroData > SIMPLES_LIMIT"
    by (simp_all add: noRevenueData_def zeroData_def SIMPLES_LIMIT_def)
  have rev: "revenueAnnual noRevenueData = 0" "revenueAnnual zeroData = 0"
    by (simp_all add: noRevenueData_def zeroData_def)
  have "effectiveRate (calculateSimples noRevenueData COMERCIO) = PosInfinity"
    by (simp add: simples_open_fields(10) [OF nb(1)] noRevenue_totals rev js_div_def js_times_def)
  moreover have "effectiveRate (calculatePresumido noRevenueData COMERCIO DEFAULT_PRESUMIDO_CONFIG)
       = PosInfinity"
    by (simp add: presumido_other noRevenue_totals rev js_div_def js_times_def)
  moreover have "effectiveRate (calculateReal noRevenueData COMERCIO DEFAULT_REAL_CONFIG defaultLalur)
       = PosInfinity"
    by (simp add: real_notes noRevenue_totals rev js_div_def js_times_def)
  moreover have "effectiveRate (calculateSimples zeroData COMERCIO) = NaN"
    by (simp add: simples_open_fields(10) [OF nb(2)] emptyLedger_totals rev js_div_def js_times_def)
  moreover have "effectiveRate (calculatePresumido zeroData COMERCIO DEFAULT_PRESUMIDO_CONFIG) = NaN"
    by (simp add: presumido_other emptyLedger_totals rev js_div_def js_times_def)
  moreover have "effectiveRate (calculateReal zeroData COMERCIO DEFAULT_REAL_CONFIG defaultLalur) = NaN"
    by (simp add: real_notes emptyLedger_real_default rev js_div_def js_times_def)
  ultimately show ?thesis using rev by blast
qed

section \<open>Employer contribution inside the charges\<close>

lemma simples_charges:
  "charges (breakdown (calculateSimples data activity))
     = taxPayroll (breakdown (calculateSimples data activity))
       + det_fgts (detailed (calculateSimples data activity))"
proof (cases "revenueAnnual data > SIMPLES_LIMIT")
  case True
  then show ?thesis
    by (simp add: simples_blocked_fields emptyDetailed_def)
next
  case False
  then show ?thesis
    by (simp add: simples_open_fields(7,8))
qed

lemma simples_breakdown_total:
  "taxSales (breakdown (calculateSimples data activity))
     + taxIncome (breakdown (calculateSimples data activity))
     + charges (breakdown (calculateSimples data activity))
   = totalTax (calculateSimples data activity)"
proof (cases "revenueAnnual data > SIMPLES_LIMIT")
  case True
  then show ?thesis
    by (simp add: simples_blocked_fields)
next
  case False
  then show ?thesis
    by (simp add: simples_open_fields(5,6,7,8,9))
qed

lemma presumido_breakdown_total:
  "taxSales (breakdown (calculatePresumido data activity config))
     + taxIncome (breakdown (calculatePresumido data activity config))
     + charges (breakdown (calculatePresumido data activity config))
   = totalTax (calculatePresumido data activity config)"
  by (simp add: presumido_totalTax presumido_payroll(6))

lemma real_breakdown_total:
  "taxSales (breakdown (calculateReal data activity config lalur))
     + taxIncome (breakdown (calculateReal data activity config lalur))
     + charges (breakdown (calculateReal data activity config lalur))
     + (det_pisFinancial (detailed (calculateReal data activity config lalur))
        + det_cofinsFinancial (detailed (calculateReal data activity config lalur)))
   = totalTax (calculateReal data activity config lalur)"
  by (simp add: real_totalTax real_payroll(6) real_totalSalesTax(2) real_financial_taxes(3))

lemma reform_double_payroll:
  assumes "charges (breakdown best) = taxPayroll (breakdown best) + det_fgts (detailed best)"
  shows "totalTax (calculateReform data ls reformConfig best)
     = taxSales (breakdown (calculateReform data ls reformConfig best))
       + taxIncome (breakdown best) + 2 * taxPayroll (breakdown best) + det_fgts (detailed best)"
  by (simp add: reform_totalTax assms)

lemma bestCurrentOf_charges:
  "charges (breakdown (bestCurrentOf (calculateSimples data activity)
              (calculatePresumido data activity presumidoConfig)
              (calculateReal data activity realConfig lalur)))
   = taxPayroll (breakdown (bestCurrentOf (calculateSimples data activity)
              (calculatePresumido data activity presumidoConfig)
              (calculateReal data activity realConfig lalur)))
     + det_fgts (detailed (bestCurrentOf (calculateSimples data activity)
              (calculatePresumido data activity presumidoConfig)
              (calculateReal data activity realConfig lalur)))"
  using bestCurrentOf_cases [of "calculateSimples data activity"
      "calculatePresumido data activity presumidoConfig"
      "calculateReal data activity realConfig lalur"]
  by (auto simp: simples_charges presumido_payroll(6) real_payroll(6))

lemma payroll_rates_nonzero:
  fixes p :: real
  assumes "p \<noteq> 0" "a + b + c \<noteq> 0"
  shows "p * (a / 100) + p * (b / 100) + p * (c / 100) \<noteq> 0"
proof -
  have eq: "p * (a / 100) + p * (b / 100) + p * (c / 100) = p * ((a + b + c) / 100)"
    by (simp only: add_divide_distrib distrib_left)
  have "p * ((a + b + c) / 100) \<noteq> 0"
    using assms by simp
  then show ?thesis unfolding eq .
qed

lemma simples_taxPayroll:
  "taxPayroll (breakdown (calculateSimples data activity))
     = (if activity = SERVICO_ANEXO_IV \<and> \<not> revenueAnnual data > SIMPLES_LIMIT
        then payrollBase data * 0.278 else 0)"
proof (cases "revenueAnnual data > SIMPLES_LIMIT")
  case True
  then show ?thesis
    by (simp add: simples_blocked_fields)
next
  case False
  then show ?thesis
    by (simp add: simples_open_fields(4,7))
qed

lemma smallTrade_totals:
  "totalTax (calculateSimples smallTradeData COMERCIO) = 7280"
  "totalTax (calculatePresumido smallTradeData COMERCIO DEFAULT_PRESUMIDO_CONFIG) = 53152"
  "totalTax (calculateReal smallTradeData COMERCIO DEFAULT_REAL_CONFIG
      (lalurAdjustmentsOf ([] :: DRELineItem list))) = 80510.08"
  "isBlocked (calculateSimples smallTradeData COMERCIO) = None"
  "taxIncome (breakdown (calculateSimples smallTradeData COMERCIO)) = 0"
  "det_fgts (detailed (calculateSimples smallTradeData COMERCIO)) = 80"
  by (simp_all add: simples_open_fields presumido_stages real_stages smallTradeData_def
      zeroData_def SIMPLES_LIMIT_def THRESHOLD_ADICIONAL_IRPJ_def lalurAdjustmentsOf_def
      DEFAULT_PRESUMIDO_CONFIG_def DEFAULT_REAL_CONFIG_def js_or0_def selectAnnex_def
      findRange_def ANEXO_I_def)

lemma smallTrade_baseline:
  "res_bestCurrent smallTradeResults = calculateSimples smallTradeData COMERCIO"
proof -
  have "res_bestCurrent smallTradeResults
      = bestCurrentOf (calculateSimples smallTradeData COMERCIO)
          (calculatePresumido smallTradeData COMERCIO DEFAULT_PRESUMIDO_CONFIG)
          (calculateReal smallTradeData COMERCIO DEFAULT_REAL_CONFIG
             (lalurAdjustmentsOf ([] :: DRELineItem list)))"
    by (simp only: smallTradeResults_def results_def Let_def DashboardResults.select_convs)
  also have "\<dots> = calculateSimples smallTradeData COMERCIO"
    by (simp add: bestCurrentOf_def allCurrentOf_def pickLower_def smallTrade_totals
        presumido_other real_notes)
  finally show ?thesis .
qed

text \<open>
  Claim C10, as amended. In the result of each of the three current-regime calculators
  the charges field of the breakdown is the payroll-tax field plus the severance-fund
  amount, and the total tax counts the payroll-tax amount once: it is the sales-tax field
  plus the income-tax field plus the charges (plus, in Lucro Real, the PIS and COFINS on
  financial revenue). The sum of the four breakdown fields therefore exceeds that by the
  payroll-tax field. The reform calculator adds both the payroll-tax field and the
  charges of its baseline to the total VAT, so its total tax holds the payroll-tax
  amount of the baseline twice; the baseline of the dashboard is one of the three
  results. In Lucro Presumido and Lucro Real the payroll-tax amount is the payroll base
  times the employer, accident-insurance and third-party rates, so with a nonzero
  payroll base it is nonzero whenever these three rates do not add up to zero. In
  Simples Nacional it is nonzero, with a nonzero payroll base, only for an unblocked
  result under Anexo IV; for any other activity, and for a blocked result, it is zero,
  and the reform total on such a baseline is the total VAT plus the income-tax field
  plus the severance-fund amount, with no employer contribution in it.
\<close>

theorem C10_charges_contain_payroll_tax:
  "charges (breakdown (calculateSimples data activity))
     = taxPayroll (breakdown (calculateSimples data activity))
       + det_fgts (detailed (calculateSimples data activity))
   \<and> charges (breakdown (calculatePresumido data activity presumidoConfig))
     = taxPayroll (breakdown (calculatePresumido data activity presumidoConfig))
       + det_fgts (detailed (calculatePresumido data activity presumidoConfig))
   \<and> charges (breakdown (calculateReal data activity realConfig lalur))
     = taxPayroll (breakdown (calculateReal data activity realConfig lalur))
       + det_fgts (detailed (calculateReal data activity realConfig lalur))
   \<and> taxSales (breakdown (calculateSimples data activity))
       + taxIncome (breakdown (calculateSimples data activity))
       + taxPayroll (breakdown (calculateSimples data activity))
       + charges (breakdown (calculateSimples data activity))
     = totalTax (calculateSimples data activity)
       + taxPayroll (breakdown (calculateSimples data activity))
   \<and> taxSales (breakdown (calculatePresumido data activity presumidoConfig))
       + taxIncome (breakdown (calculatePresumido data activity presumidoConfig))
       + taxPayroll (breakdown (calculatePresumido data activity presumidoConfig))
       + charges (breakdown (calculatePresumido data activity presumidoConfig))
     = totalTax (calculatePresumido data activity presumidoConfig)
       + taxPayroll (breakdown (calculatePresumido data activity presumidoConfig))
   \<and> taxSales (breakdown (calculateReal data activity realConfig lalur))
       + taxIncome (breakdown (calculateReal data activity realConfig lalur))
       + taxPayroll (breakdown (calculateReal data activity realConfig lalur))
       + charges (breakdown (calculateReal data activity realConfig lalur))
     = totalTax (calculateReal data activity realConfig lalur)
       - (det_pisFinancial (detailed (calculateReal data activity realConfig lalur))
          + det_cofinsFinancial (detailed (calculateReal data activity realConfig lalur)))
       + taxPayroll (breakdown (calculateReal data activity realConfig lalur))
   \<and> taxPayroll (breakdown (calculatePresumido data activity presumidoConfig))
     = payrollBase data * (cpp presumidoConfig / 100)
       + payrollBase data * (rat presumidoConfig / 100)
       + payrollBase data * (inssTerceiros presumidoConfig / 100)
   \<and> taxPayroll (breakdown (calculateReal data activity realConfig lalur))
     = payrollBase data * (cpp realConfig / 100)
       + payrollBase data * (rat realConfig / 100)
       + payrollBase data * (inssTerceiros realConfig / 100)
   \<and> totalTax (calculateReform data ls reformConfig (calculateSimples data activity))
     = taxSales (breakdown (calculateReform data ls reformConfig (calculateSimples data activity)))
       + taxIncome (breakdown (calculateSimples data activity))
       + 2 * taxPayroll (breakdown (calculateSimples data activity))
       + det_fgts (detailed (calculateSimples data activity))
   \<and> totalTax (calculateReform data ls reformConfig
        (calculatePresumido data activity presumidoConfig))
     = taxSales (breakdown (calculateReform data ls reformConfig
          (calculatePresumido data activity presumidoConfig)))
       + taxIncome (breakdown (calculatePresumido data activity presumidoConfig))
       + 2 * taxPayroll (breakdown (calculatePresumido data activity presumidoConfig))
       + det_fgts (detailed (calculatePresumido data activity presumidoConfig))
   \<and> totalTax (calculateReform data ls reformConfig
        (calculateReal data activity realConfig lalur))
     = taxSales (breakdown (calculateReform data ls reformConfig
          (calculateReal data activity realConfig lalur)))
       + taxIncome (breakdown (calculateReal data activity realConfig lalur))
       + 2 * taxPayroll (breakdown (calculateReal data activity realConfig lalur))
       + det_fgts (detailed (calculateReal data activity realConfig lalur))
   \<and> res_bestCurrent (results data activity presumidoConfig realConfig reformConfig ls)
       \<in> {res_simples (results data activity presumidoConfig realConfig reformConfig ls),
           res_presumido (results data activity presumidoConfig realConfig reformConfig ls),
           res_real (results data activity presumidoConfig realConfig reformConfig ls)}
   \<and> totalTax (res_reform (results data activity presumidoConfig realConfig reformConfig ls))
     = taxSales (breakdown
          (res_reform (results data activity presumidoConfig realConfig reformConfig ls)))
       + taxIncome (breakdown
          (res_bestCurrent (results data activity presumidoConfig realConfig reformConfig ls)))
       + 2 * taxPayroll (breakdown
          (res_bestCurrent (results data activity presumidoConfig realConfig reformConfig ls)))
       + det_fgts (detailed
          (res_bestCurrent (results data activity presumidoConfig realConfig reformConfig ls)))
   \<and> (payrollBase data \<noteq> 0
        \<and> cpp presumidoConfig + rat presumidoConfig + inssTerceiros presumidoConfig \<noteq> 0
        \<longrightarrow> taxPayroll (breakdown (calculatePresumido data activity presumidoConfig)) \<noteq> 0)
   \<and> (payrollBase data \<noteq> 0
        \<and> cpp realConfig + rat realConfig + inssTerceiros realConfig \<noteq> 0
        \<longrightarrow> taxPayroll (breakdown (calculateReal data activity realConfig lalur)) \<noteq> 0)
   \<and> (payrollBase data \<noteq> 0 \<and> activity = SERVICO_ANEXO_IV
        \<and> revenueAnnual data \<le> SIMPLES_LIMIT
        \<longrightarrow> taxPayroll (breakdown (calculateSimples data activity)) \<noteq> 0)
   \<and> (activity \<noteq> SERVICO_ANEXO_IV \<or> revenueAnnual data > SIMPLES_LIMIT
        \<longrightarrow> taxPayroll (breakdown (calculateSimples data activity)) = 0
            \<and> totalTax (calculateReform data ls reformConfig (calculateSimples data activity))
                = taxSales (breakdown
                    (calculateReform data ls reformConfig (calculateSimples data activity)))
                  + taxIncome (breakdown (calculateSimples data activity))
                  + det_fgts (detailed (calculateSimples data activity)))"
proof (intro conjI impI)
  show sc: "charges (breakdown (calculateSimples data activity))
     = taxPayroll (breakdown (calculateSimples data activity))
       + det_fgts (detailed (calculateSimples data activity))"
    by (rule simples_charges)
  show pc: "charges (breakdown (calculatePresumido data activity presumidoConfig))
     = taxPayroll (breakdown (calculatePresumido data activity presumidoConfig))
       + det_fgts (detailed (calculatePresumido data activity presumidoConfig))"
    by (rule presumido_payroll(6))
  show rc: "charges (breakdown (calculateReal data activity realConfig lalur))
     = taxPayroll (breakdown (calculateReal data activity realConfig lalur))
       + det_fgts (detailed (calculateReal data activity realConfig lalur))"
    by (rule real_payroll(6))
  show "taxSales (breakdown (calculateSimples data activity))
       + taxIncome (breakdown (calculateSimples data activity))
       + taxPayroll (breakdown (calculateSimples data activity))
       + charges (breakdown (calculateSimples data activity))
     = totalTax (calculateSimples data activity)
       + taxPayroll (breakdown (calculateSimples data activity))"
    using simples_breakdown_total [of data activity] by simp
  show "taxSales (breakdown (calculatePresumido data activity presumidoConfig))
       + taxIncome (breakdown (calculatePresumido data activity presumidoConfig))
       + taxPayroll (breakdown (calculatePresumido data activity presumidoConfig))
       + charges (breakdown (calculatePresumido data activity presumidoConfig))
     = totalTax (calculatePresumido data activity presumidoConfig)
       + taxPayroll (breakdown (calculatePresumido data activity presumidoConfig))"
    using presumido_breakdown_total [of data activity presumidoConfig] by simp
  show "taxSales (breakdown (calculateReal data activity realConfig lalur))
       + taxIncome (breakdown (calculateReal data activity realConfig lalur))
       + taxPayroll (breakdown (calculateReal data activity realConfig lalur))
       + charges (breakdown (calculateReal data activity realConfig lalur))
     = totalTax (calculateReal data activity realConfig lalur)
       - (det_pisFinancial (detailed (calculateReal data activity realConfig lalur))
          + det_cofinsFinancial (detailed (calculateReal data activity realConfig lalur)))
       + taxPayroll (breakdown (calculateReal data activity realConfig lalur))"
    using real_breakdown_total [of data activity realConfig lalur] by simp
  show "taxPayroll (breakdown (calculatePresumido data activity presumidoConfig))
     = payrollBase data * (cpp presumidoConfig / 100)
       + payrollBase data * (rat presumidoConfig / 100)
       + payrollBase data * (inssTerceiros presumidoConfig / 100)"
    by (simp only: presumido_payroll)
  show "taxPayroll (breakdown (calculateReal data activity realConfig lalur))
     = payrollBase data * (cpp realConfig / 100)
       + payrollBase data * (rat realConfig / 100)
       + payrollBase data * (inssTerceiros realConfig / 100)"
    by (simp only: real_payroll)
  show "totalTax (calculateReform data ls reformConfig (calculateSimples data activity))
     = taxSales (breakdown (calculateReform data ls reformConfig (calculateSimples data activity)))
       + taxIncome (breakdown (calculateSimples data activity))
       + 2 * taxPayroll (breakdown (calculateSimples data activity))
       + det_fgts (detailed (calculateSimples data activity))"
    by (rule reform_double_payroll [OF sc])
  show "totalTax (calculateReform data ls reformConfig
        (calculatePresumido data activity presumidoConfig))
     = taxSales (breakdown (calculateReform data ls reformConfig
          (calculatePresumido data activity presumidoConfig)))
       + taxIncome (breakdown (calculatePresumido data activity presumidoConfig))
       + 2 * taxPayroll (breakdown (calculatePresumido data activity presumidoConfig))
       + det_fgts (detailed (calculatePresumido data activity presumidoConfig))"
    by (rule reform_double_payroll [OF pc])
  show "totalTax (calculateReform data ls reformConfig
        (calculateReal data activity realConfig lalur))
     = taxSales (breakdown (calculateReform data ls reformConfig
          (calculateReal data activity realConfig lalur)))
       + taxIncome (breakdown (calculateReal data activity realConfig lalur))
       + 2 * taxPayroll (breakdown (calculateReal data activity realConfig lalur))
       + det_fgts (detailed (calculateReal data activity realConfig lalur))"
    by (rule reform_double_payroll [OF rc])
  have sel: "res_simples (results data activity presumidoConfig realConfig reformConfig ls)
      = calculateSimples data activity"
    "res_presumido (results data activity presumidoConfig realConfig reformConfig ls)
      = calculatePresumido data activity presumidoConfig"
    "res_real (results data activity presumidoConfig realConfig reformConfig ls)
      = calculateReal data activity realConfig (lalurAdjustmentsOf ls)"
    "res_bestCurrent (results data activity presumidoConfig realConfig reformConfig ls)
      = bestCurrentOf (calculateSimples data activity)
          (calculatePresumido data activity presumidoConfig)
          (calculateReal data activity realConfig (lalurAdjustmentsOf ls))"
    by (simp_all only: results_def Let_def DashboardResults.select_convs)
  show "res_bestCurrent (results data activity presumidoConfig realConfig reformConfig ls)
       \<in> {res_simples (results data activity presumidoConfig realConfig reformConfig ls),
           res_presumido (results data activity presumidoConfig realConfig reformConfig ls),
           res_real (results data activity presumidoConfig realConfig reformConfig ls)}"
    unfolding sel by (rule bestCurrentOf_cases)
  show "totalTax (res_reform (results data activity presumidoConfig realConfig reformConfig ls))
     = taxSales (breakdown
          (res_reform (results data activity presumidoConfig realConfig reformConfig ls)))
       + taxIncome (breakdown
          (res_bestCurrent (results data activity presumidoConfig realConfig reformConfig ls)))
       + 2 * taxPayroll (breakdown
          (res_bestCurrent (results data activity presumidoConfig realConfig reformConfig ls)))
       + det_fgts (detailed
          (res_bestCurrent (results data activity presumidoConfig realConfig reformConfig ls)))"
    unfolding results_reform
    by (rule reform_double_payroll) (simp only: sel bestCurrentOf_charges)
next
  assume "payrollBase data \<noteq> 0
        \<and> cpp presumidoConfig + rat presumidoConfig + inssTerceiros presumidoConfig \<noteq> 0"
  then show "taxPayroll (breakdown (calculatePresumido data activity presumidoConfig)) \<noteq> 0"
    unfolding presumido_payroll by (intro payroll_rates_nonzero) simp_all
next
  assume "payrollBase data \<noteq> 0
        \<and> cpp realConfig + rat realConfig + inssTerceiros realConfig \<noteq> 0"
  then show "taxPayroll (breakdown (calculateReal data activity realConfig lalur)) \<noteq> 0"
    unfolding real_payroll by (intro payroll_rates_nonzero) simp_all
next
  assume "payrollBase data \<noteq> 0 \<and> activity = SERVICO_ANEXO_IV
        \<and> revenueAnnual data \<le> SIMPLES_LIMIT"
  then show "taxPayroll (breakdown (calculateSimples data activity)) \<noteq> 0"
    by (simp add: simples_taxPayroll)
next
  assume out: "activity \<noteq> SERVICO_ANEXO_IV \<or> revenueAnnual data > SIMPLES_LIMIT"
  then show zero: "taxPayroll (breakdown (calculateSimples data activity)) = 0"
    by (auto simp: simples_taxPayroll)
  have "totalTax (calculateReform data ls reformConfig (calculateSimples data activity))
     = taxSales (breakdown (calculateReform data ls reformConfig (calculateSimples data activity)))
       + taxIncome (breakdown (calculateSimples data activity))
       + 2 * taxPayroll (breakdown (calculateSimples data activity))
       + det_fgts (detailed (calculateSimples data activity))"
    by (rule reform_double_payroll [OF simples_charges])
  then show "totalTax (calculateReform data ls reformConfig (calculateSimples data activity))
                = taxSales (breakdown
                    (calculateReform data ls reformConfig (calculateSimples data activity)))
                  + taxIncome (breakdown (calculateSimples data activity))
                  + det_fgts (detailed (calculateSimples data activity))"
    by (simp add: zero)
qed

theorem C10_charges_contain_payroll_tax_witness:
  "taxPayroll (breakdown (calculatePresumido scenarioData SERVICO_ANEXO_IV
      DEFAULT_PRESUMIDO_CONFIG)) \<noteq> 0
   \<and> taxPayroll (breakdown (calculateReal scenarioData SERVICO_ANEXO_IV DEFAULT_REAL_CONFIG
      defaultLalur)) \<noteq> 0
   \<and> taxPayroll (breakdown (calculateSimples scenarioData SERVICO_ANEXO_IV)) \<noteq> 0
   \<and> taxPayroll (breakdown (calculateSimples smallTradeData COMERCIO)) = 0
   \<and> totalTax (calculateReform smallTradeData ([] :: DRELineItem list) DEFAULT_REFORM_CONFIG
        (calculateSimples smallTradeData COMERCIO))
      = taxSales (breakdown (calculateReform smallTradeData ([] :: DRELineItem list)
          DEFAULT_REFORM_CONFIG (calculateSimples smallTradeData COMERCIO)))
        + taxIncome (breakdown (calculateSimples smallTradeData COMERCIO))
        + det_fgts (detailed (calculateSimples smallTradeData COMERCIO))"
proof -
  have p: "payrollBase scenarioData \<noteq> 0
      \<and> cpp DEFAULT_PRESUMIDO_CONFIG + rat DEFAULT_PRESUMIDO_CONFIG
          + inssTerceiros DEFAULT_PRESUMIDO_CONFIG \<noteq> 0"
    by (simp add: scenarioData_def zeroData_def DEFAULT_PRESUMIDO_CONFIG_def)
  have r: "payrollBase scenarioData \<noteq> 0
      \<and> cpp DEFAULT_REAL_CONFIG + rat DEFAULT_REAL_CONFIG + inssTerceiros DEFAULT_REAL_CONFIG \<noteq> 0"
    by (simp add: scenarioData_def zeroData_def DEFAULT_REAL_CONFIG_def)
  have iv: "payrollBase scenarioData \<noteq> 0 \<and> SERVICO_ANEXO_IV = SERVICO_ANEXO_IV
      \<and> revenueAnnual scenarioData \<le> SIMPLES_LIMIT"
    by (simp add: scenarioData_def zeroData_def SIMPLES_LIMIT_def)
  have out: "COMERCIO \<noteq> SERVICO_ANEXO_IV \<or> revenueAnnual smallTradeData > SIMPLES_LIMIT"
    by simp
  note inst1 = C10_charges_contain_payroll_tax
    [of scenarioData SERVICO_ANEXO_IV DEFAULT_PRESUMIDO_CONFIG DEFAULT_REAL_CONFIG defaultLalur
        "[] :: DRELineItem list" DEFAULT_REFORM_CONFIG]
  note inst2 = C10_charges_contain_payroll_tax
    [of smallTradeData COMERCIO DEFAULT_PRESUMIDO_CONFIG DEFAULT_REAL_CONFIG defaultLalur
        "[] :: DRELineItem list" DEFAULT_REFORM_CONFIG]
  from inst1 p have "taxPayroll (breakdown (calculatePresumido scenarioData SERVICO_ANEXO_IV
      DEFAULT_PRESUMIDO_CONFIG)) \<noteq> 0"
    by blast
  moreover from inst1 r have "taxPayroll (breakdown (calculateReal scenarioData SERVICO_ANEXO_IV
      DEFAULT_REAL_CONFIG defaultLalur)) \<noteq> 0"
    by blast
  moreover from inst1 iv have "taxPayroll (breakdown (calculateSimples scenarioData
      SERVICO_ANEXO_IV)) \<noteq> 0"
    by blast
  moreover from inst2 out have "taxPayroll (breakdown (calculateSimples smallTradeData COMERCIO)) = 0
   \<and> totalTax (calculateReform smallTradeData ([] :: DRELineItem list) DEFAULT_REFORM_CONFIG
        (calculateSimples smallTradeData COMERCIO))
      = taxSales (breakdown (calculateReform smallTradeData ([] :: DRELineItem list)
          DEFAULT_REFORM_CONFIG (calculateSimples smallTradeData COMERCIO)))
        + taxIncome (breakdown (calculateSimples smallTradeData COMERCIO))
        + det_fgts (detailed (calculateSimples smallTradeData COMERCIO))"
    by blast
  ultimately show ?thesis by blast
qed

theorem C10_simples_baseline_counterexample:
  "payrollBase smallTradeData \<noteq> 0
   \<and> res_bestCurrent smallTradeResults = calculateSimples smallTradeData COMERCIO
   \<and> regime (res_bestCurrent smallTradeResults) = SimplesNacional
   \<and> taxPayroll (breakdown (res_bestCurrent smallTradeResults)) = 0
   \<and> det_fgts (detailed (res_bestCurrent smallTradeResults)) = 80
   \<and> totalTax (res_reform smallTradeResults)
       = taxSales (breakdown (res_reform smallTradeResults)) + 80
   \<and> totalTax (res_reform smallTradeResults) = 47780"
proof -
  have nb: "\<not> revenueAnnual smallTradeData > SIMPLES_LIMIT"
    by (simp add: smallTradeData_def zeroData_def SIMPLES_LIMIT_def)
  have pay: "payrollBase smallTradeData \<noteq> 0"
    by (simp add: smallTradeData_def zeroData_def)
  have reg: "regime (res_bestCurrent smallTradeResults) = SimplesNacional"
    unfolding smallTrade_baseline by (rule simples_open_fields(2) [OF nb])
  have tp: "taxPayroll (breakdown (res_bestCurrent smallTradeResults)) = 0"
    unfolding smallTrade_baseline by (simp add: simples_taxPayroll)
  have fg: "det_fgts (detailed (res_bestCurrent smallTradeResults)) = 80"
    unfolding smallTrade_baseline by (rule smallTrade_totals)
  have ch: "charges (breakdown (res_bestCurrent smallTradeResults)) = 80"
    unfolding smallTrade_baseline by (simp add: simples_charges simples_taxPayroll smallTrade_totals)
  have ti: "taxIncome (breakdown (res_bestCurrent smallTradeResults)) = 0"
    unfolding smallTrade_baseline by (rule smallTrade_totals)
  have rf: "res_reform smallTradeResults
      = calculateReform smallTradeData ([] :: DRELineItem list) DEFAULT_REFORM_CONFIG
          (res_bestCurrent smallTradeResults)"
    unfolding smallTradeResults_def by (rule results_reform)
  have tot: "totalTax (res_reform smallTradeResults)
       = taxSales (breakdown (res_reform smallTradeResults)) + 80"
    unfolding rf by (simp add: reform_totalTax tp ch ti)
  have vat: "taxSales (breakdown (res_reform smallTradeResults)) = 47700"
    unfolding rf
    by (simp add: reform_taxSales reform_debits reform_credit_sums smallTradeData_def zeroData_def
        DEFAULT_REFORM_CONFIG_def)
  from pay smallTrade_baseline reg tp fg tot vat show ?thesis by simp
qed

section \<open>Monotonicity in the rates\<close>

lemma ratesLe_setRate: "getRate f c \<le> v \<Longrightarrow> ratesLe c (setRate f v c)"
  by (cases f) (simp_all add: ratesLe_def)

lemma rate_mono:
  fixes b :: real
  shows "0 \<le> b \<Longrightarrow> r1 \<le> r2 \<Longrightarrow> b * (r1 / 100) \<le> b * (r2 / 100)"
  by (intro mult_left_mono) simp_all

lemma base_rate_mono:
  fixes b1 :: real
  shows "0 \<le> b1 \<Longrightarrow> b1 \<le> b2 \<Longrightarrow> 0 \<le> r1 \<Longrightarrow> r1 \<le> r2
    \<Longrightarrow> b1 * (r1 / 100) \<le> b2 * (r2 / 100)"
  by (intro mult_mono) simp_all

lemma payable_mono:
  fixes b :: real
  assumes "0 \<le> p1" "p1 \<le> p2"
  shows "max 0 (b * (p1 / 100) - cb * (p1 / 100)) \<le> max 0 (b * (p2 / 100) - cb * (p2 / 100))"
proof -
  have e: "\<And>p. b * (p / 100) - cb * (p / 100) = (b - cb) * (p / 100)"
    by (simp add: algebra_simps)
  show ?thesis
  proof (cases "0 \<le> b - cb")
    case True
    then have "(b - cb) * (p1 / 100) \<le> (b - cb) * (p2 / 100)"
      using assms by (intro rate_mono)
    then show ?thesis unfolding e by simp
  next
    case False
    then have "(b - cb) * (p1 / 100) \<le> 0" "(b - cb) * (p2 / 100) \<le> 0"
      using assms by (intro mult_nonpos_nonneg; simp)+
    then show ?thesis unfolding e by (simp only: max_absorb1)
  qed
qed

text \<open>
  The income taxes on a base \<open>t\<close>: IRPJ, its surtax above the threshold \<open>h\<close>, and CSLL.
  They grow with the rates, and while the three rates add up to at most 100 they grow
  no faster than the base.
\<close>

lemma income_tax_rate_mono:
  fixes t :: real
  assumes "0 \<le> t" "i1 \<le> i2" "a1 \<le> a2" "s1 \<le> s2"
  shows "t * (i1 / 100) + max 0 (t - h) * (a1 / 100) + t * (s1 / 100)
       \<le> t * (i2 / 100) + max 0 (t - h) * (a2 / 100) + t * (s2 / 100)"
  using assms by (intro add_mono rate_mono) simp_all

lemma income_tax_base_lipschitz:
  fixes t1 :: real
  assumes "0 \<le> i" "0 \<le> a" "0 \<le> s" "i + a + s \<le> 100" "t2 \<le> t1"
  shows "t1 * (i / 100) + max 0 (t1 - h) * (a / 100) + t1 * (s / 100)
       \<le> t2 * (i / 100) + max 0 (t2 - h) * (a / 100) + t2 * (s / 100) + (t1 - t2)"
proof -
  let ?d = "t1 - t2"
  have d: "0 \<le> ?d" using assms by simp
  have m: "max 0 (t1 - h) \<le> max 0 (t2 - h) + ?d" using assms by simp
  have "max 0 (t1 - h) * (a / 100) \<le> (max 0 (t2 - h) + ?d) * (a / 100)"
    using m assms by (intro mult_right_mono) simp_all
  then have surtax: "max 0 (t1 - h) * (a / 100) \<le> max 0 (t2 - h) * (a / 100) + ?d * (a / 100)"
    by (simp only: distrib_right)
  have "?d * ((i + a + s) / 100) \<le> ?d * 1"
    using d assms by (intro mult_left_mono) simp_all
  then have total: "?d * (i / 100) + ?d * (a / 100) + ?d * (s / 100) \<le> ?d"
    by (simp add: algebra_simps add_divide_distrib)
  have "?d * (i / 100) = t1 * (i / 100) - t2 * (i / 100)"
    "?d * (s / 100) = t1 * (s / 100) - t2 * (s / 100)"
    by (rule left_diff_distrib)+
  with surtax total show ?thesis by linarith
qed


lemma ratesNonnegD:
  assumes "ratesNonneg c"
  shows "0 \<le> pis c" "0 \<le> cofins c" "0 \<le> irpj c" "0 \<le> irpjAdicional c" "0 \<le> csll c"
    "0 \<le> ipi c" "0 \<le> iss c" "0 \<le> icms c" "0 \<le> rat c" "0 \<le> cpp c"
    "0 \<le> inssTerceiros c" "0 \<le> fgts c" "0 \<le> presuncaoIRPJ c" "0 \<le> presuncaoCSLL c"
    "0 \<le> pisFinancial c" "0 \<le> cofinsFinancial c"
  using assms by (simp_all add: ratesNonneg_def)

lemma ratesLeD:
  assumes "ratesLe c1 c2"
  shows "pis c1 \<le> pis c2" "cofins c1 \<le> cofins c2" "irpj c1 \<le> irpj c2"
    "irpjAdicional c1 \<le> irpjAdicional c2" "csll c1 \<le> csll c2" "ipi c1 \<le> ipi c2"
    "iss c1 \<le> iss c2" "icms c1 \<le> icms c2" "rat c1 \<le> rat c2" "cpp c1 \<le> cpp c2"
    "inssTerceiros c1 \<le> inssTerceiros c2" "fgts c1 \<le> fgts c2"
    "presuncaoIRPJ c1 \<le> presuncaoIRPJ c2" "presuncaoCSLL c1 \<le> presuncaoCSLL c2"
    "pisFinancial c1 \<le> pisFinancial c2" "cofinsFinancial c1 \<le> cofinsFinancial c2"
  using assms by (simp_all add: ratesLe_def)

lemma dataNonnegD:
  assumes "dataNonneg data"
  shows "0 \<le> revenueAnnual data" "0 \<le> payrollBase data" "0 \<le> financialRevenues data"
  using assms by (simp_all add: dataNonneg_def)

lemma if_zero_mono:
  fixes x :: real
  shows "x \<le> y \<Longrightarrow> (if b then x else 0) \<le> (if b then y else 0)"
  by simp

lemma percent_nonneg:
  fixes r :: real
  shows "0 \<le> r \<Longrightarrow> 0 \<le> r / 100"
  by simp

lemma presumido_mono:
  assumes d: "dataNonneg data" and n: "ratesNonneg c1" and le: "ratesLe c1 c2"
  shows "totalTax (calculatePresumido data activity c1)
       \<le> totalTax (calculatePresumido data activity c2)"
proof -
  note dn = dataNonnegD [OF d] and rn = ratesNonnegD [OF n] and rl = ratesLeD [OF le]
  have bI: "0 \<le> p_baseIRPJ (presumidoBody data activity c1)"
    unfolding presumido_bases
    by (intro add_nonneg_nonneg mult_nonneg_nonneg percent_nonneg dn rn)
  have bI_le: "p_baseIRPJ (presumidoBody data activity c1)
      \<le> p_baseIRPJ (presumidoBody data activity c2)"
    unfolding presumido_bases
    by (intro add_mono rate_mono order.refl dn rl)
  have bC: "0 \<le> p_baseCSLL (presumidoBody data activity c1)"
    unfolding presumido_bases
    by (intro add_nonneg_nonneg mult_nonneg_nonneg percent_nonneg dn rn)
  have bC_le: "p_baseCSLL (presumidoBody data activity c1)
      \<le> p_baseCSLL (presumidoBody data activity c2)"
    unfolding presumido_bases
    by (intro add_mono rate_mono order.refl dn rl)
  have m0: "0 \<le> max 0 (p_baseIRPJ (presumidoBody data activity c1) - THRESHOLD_ADICIONAL_IRPJ)"
    by simp
  have m_le: "max 0 (p_baseIRPJ (presumidoBody data activity c1) - THRESHOLD_ADICIONAL_IRPJ)
      \<le> max 0 (p_baseIRPJ (presumidoBody data activity c2) - THRESHOLD_ADICIONAL_IRPJ)"
    using bI_le by simp
  have income: "taxIncome (breakdown (calculatePresumido data activity c1))
      \<le> taxIncome (breakdown (calculatePresumido data activity c2))"
    unfolding presumido_income_tax
    by (intro add_mono base_rate_mono bI bI_le bC bC_le m0 m_le rn rl)
  have sales: "taxSales (breakdown (calculatePresumido data activity c1))
      \<le> taxSales (breakdown (calculatePresumido data activity c2))"
    unfolding presumido_sales
    by (intro add_mono if_zero_mono rate_mono dn rl)
  have payroll: "taxPayroll (breakdown (calculatePresumido data activity c1))
      \<le> taxPayroll (breakdown (calculatePresumido data activity c2))"
    unfolding presumido_payroll
    by (intro add_mono rate_mono dn rl)
  have fgts: "det_fgts (detailed (calculatePresumido data activity c1))
      \<le> det_fgts (detailed (calculatePresumido data activity c2))"
    unfolding presumido_payroll
    by (intro rate_mono dn rl)
  show ?thesis
    unfolding presumido_totalTax
    by (intro add_mono income sales payroll fgts)
qed


lemma js_or0_id: "js_or0 x = x"
  by (simp add: js_or0_def)

text \<open>
  The taxes of Lucro Real that are deducted before the income taxes: sales taxes,
  PIS and COFINS on financial revenue, and the employer charges.
\<close>

lemma real_deducted_taxes_mono:
  assumes d: "dataNonneg data" and n: "ratesNonneg c1" and le: "ratesLe c1 c2"
  shows "r_totalSalesTax (realBody data activity c1 lalur)
         + r_totalFinancialTaxes (realBody data activity c1 lalur)
         + charges (breakdown (calculateReal data activity c1 lalur))
       \<le> r_totalSalesTax (realBody data activity c2 lalur)
         + r_totalFinancialTaxes (realBody data activity c2 lalur)
         + charges (breakdown (calculateReal data activity c2 lalur))"
proof -
  note dn = dataNonnegD [OF d] and rn = ratesNonnegD [OF n] and rl = ratesLeD [OF le]
  have sales: "r_totalSalesTax (realBody data activity c1 lalur)
      \<le> r_totalSalesTax (realBody data activity c2 lalur)"
    unfolding real_totalSalesTax(1) real_payable real_debito real_credito real_flat_sales
      real_revenueBase real_creditBase
    by (intro add_mono payable_mono if_zero_mono rate_mono dn rn rl)
  have fin: "r_totalFinancialTaxes (realBody data activity c1 lalur)
      \<le> r_totalFinancialTaxes (realBody data activity c2 lalur)"
    unfolding real_financial_taxes js_or0_id
    by (intro add_mono rate_mono dn rl)
  have chg: "charges (breakdown (calculateReal data activity c1 lalur))
      \<le> charges (breakdown (calculateReal data activity c2 lalur))"
    unfolding real_payroll
    by (intro add_mono rate_mono dn rl)
  show ?thesis
    by (intro add_mono sales fin chg)
qed

lemma real_adjusted_profit:
  "r_profitBeforeTax (realBody data activity config lalur) + additions lalur - exclusions lalur
     = (revenueAnnual data - deductions data - cogs data - expenses data - payrollBase data
        + financialRevenues data - financialExpenses data + additions lalur - exclusions lalur)
       - (r_totalSalesTax (realBody data activity config lalur)
          + r_totalFinancialTaxes (realBody data activity config lalur)
          + charges (breakdown (calculateReal data activity config lalur)))"
  unfolding real_profit by linarith

lemma real_totalTax_split:
  "totalTax (calculateReal data activity config lalur)
     = (r_taxableIncome (realBody data activity config lalur) * (irpj config / 100)
        + max 0 (r_taxableIncome (realBody data activity config lalur) - THRESHOLD_ADICIONAL_IRPJ)
            * (irpjAdicional config / 100)
        + r_taxableIncome (realBody data activity config lalur) * (csll config / 100))
       + (r_totalSalesTax (realBody data activity config lalur)
          + r_totalFinancialTaxes (realBody data activity config lalur)
          + charges (breakdown (calculateReal data activity config lalur)))"
  unfolding real_totalTax real_income_tax(4) real_income_tax(1,2,3) real_payroll(6)
  by linarith

lemma real_mono:
  assumes d: "dataNonneg data" and n: "ratesNonneg c1" and le: "ratesLe c1 c2"
    and cap: "irpj c1 + irpjAdicional c1 + csll c1 \<le> 100"
  shows "totalTax (calculateReal data activity c1 lalur)
       \<le> totalTax (calculateReal data activity c2 lalur)"
proof -
  note rn = ratesNonnegD [OF n] and rl = ratesLeD [OF le]
  define k where "k = revenueAnnual data - deductions data - cogs data - expenses data
      - payrollBase data + financialRevenues data - financialExpenses data
      + additions lalur - exclusions lalur"
  define x1 where "x1 = r_totalSalesTax (realBody data activity c1 lalur)
      + r_totalFinancialTaxes (realBody data activity c1 lalur)
      + charges (breakdown (calculateReal data activity c1 lalur))"
  define x2 where "x2 = r_totalSalesTax (realBody data activity c2 lalur)
      + r_totalFinancialTaxes (realBody data activity c2 lalur)
      + charges (breakdown (calculateReal data activity c2 lalur))"
  define t1 where "t1 = r_taxableIncome (realBody data activity c1 lalur)"
  define t2 where "t2 = r_taxableIncome (realBody data activity c2 lalur)"
  have x: "x1 \<le> x2"
    unfolding x1_def x2_def by (rule real_deducted_taxes_mono [OF d n le])
  have t1: "t1 = max 0 (k - x1)"
    unfolding t1_def real_profit(6) real_adjusted_profit k_def x1_def by (rule refl)
  have t2: "t2 = max 0 (k - x2)"
    unfolding t2_def real_profit(6) real_adjusted_profit k_def x2_def by (rule refl)
  have t2_nonneg: "0 \<le> t2" and t_le: "t2 \<le> t1" and t_gap: "t1 - t2 \<le> x2 - x1"
    using x unfolding t1 t2 by simp_all
  have T1: "totalTax (calculateReal data activity c1 lalur)
      = (t1 * (irpj c1 / 100) + max 0 (t1 - THRESHOLD_ADICIONAL_IRPJ) * (irpjAdicional c1 / 100)
         + t1 * (csll c1 / 100)) + x1"
    unfolding t1_def x1_def by (rule real_totalTax_split)
  have T2: "totalTax (calculateReal data activity c2 lalur)
      = (t2 * (irpj c2 / 100) + max 0 (t2 - THRESHOLD_ADICIONAL_IRPJ) * (irpjAdicional c2 / 100)
         + t2 * (csll c2 / 100)) + x2"
    unfolding t2_def x2_def by (rule real_totalTax_split)
  have step1: "t1 * (irpj c1 / 100) + max 0 (t1 - THRESHOLD_ADICIONAL_IRPJ) * (irpjAdicional c1 / 100)
         + t1 * (csll c1 / 100)
      \<le> t2 * (irpj c1 / 100) + max 0 (t2 - THRESHOLD_ADICIONAL_IRPJ) * (irpjAdicional c1 / 100)
         + t2 * (csll c1 / 100) + (t1 - t2)"
    by (rule income_tax_base_lipschitz [OF rn(3) rn(4) rn(5) cap t_le])
  have step2: "t2 * (irpj c1 / 100) + max 0 (t2 - THRESHOLD_ADICIONAL_IRPJ) * (irpjAdicional c1 / 100)
         + t2 * (csll c1 / 100)
      \<le> t2 * (irpj c2 / 100) + max 0 (t2 - THRESHOLD_ADICIONAL_IRPJ) * (irpjAdicional c2 / 100)
         + t2 * (csll c2 / 100)"
    by (rule income_tax_rate_mono [OF t2_nonneg rl(3) rl(4) rl(5)])
  show ?thesis
    unfolding T1 T2 using step1 step2 t_gap by linarith
qed


lemma getRate_setRate: "getRate g (setRate f v c) = (if g = f then v else getRate g c)"
  by (cases f; cases g) simp_all

text \<open>
  Claim C9, as amended. Let the revenue, the payroll base and the financial revenue of
  the summary be non-negative and let every rate of the configuration be non-negative.
  Then raising a single rate field, with the summary, the activity and every other rate
  as they are, does not lower the total tax of \<open>calculatePresumido\<close>; and it does not
  lower the total tax of \<open>calculateReal\<close> either, provided the IRPJ rate, the IRPJ
  surtax rate and the CSLL rate of the configuration add up to at most 100 percent.
\<close>

theorem C9_total_tax_monotone_in_rates:
  "(dataNonneg data \<and> ratesNonneg c \<and> getRate f c \<le> v \<longrightarrow>
      totalTax (calculatePresumido data activity c)
        \<le> totalTax (calculatePresumido data activity (setRate f v c)))
   \<and> (dataNonneg data \<and> ratesNonneg c \<and> irpj c + irpjAdicional c + csll c \<le> 100
        \<and> getRate f c \<le> v \<longrightarrow>
      totalTax (calculateReal data activity c lalur)
        \<le> totalTax (calculateReal data activity (setRate f v c) lalur))"
proof (intro conjI impI)
  assume "dataNonneg data \<and> ratesNonneg c \<and> getRate f c \<le> v"
  then show "totalTax (calculatePresumido data activity c)
        \<le> totalTax (calculatePresumido data activity (setRate f v c))"
    by (intro presumido_mono ratesLe_setRate) simp_all
next
  assume "dataNonneg data \<and> ratesNonneg c \<and> irpj c + irpjAdicional c + csll c \<le> 100
        \<and> getRate f c \<le> v"
  then show "totalTax (calculateReal data activity c lalur)
        \<le> totalTax (calculateReal data activity (setRate f v c) lalur)"
    by (intro real_mono ratesLe_setRate) simp_all
qed

theorem C9_total_tax_monotone_in_rates_witness:
  "dataNonneg scenarioData
   \<and> ratesNonneg DEFAULT_PRESUMIDO_CONFIG \<and> getRate F_iss DEFAULT_PRESUMIDO_CONFIG \<le> 10
   \<and> totalTax (calculatePresumido scenarioData SERVICO_ANEXO_III DEFAULT_PRESUMIDO_CONFIG)
       \<le> totalTax (calculatePresumido scenarioData SERVICO_ANEXO_III
             (setRate F_iss 10 DEFAULT_PRESUMIDO_CONFIG))
   \<and> ratesNonneg DEFAULT_REAL_CONFIG \<and> getRate F_iss DEFAULT_REAL_CONFIG \<le> 10
   \<and> irpj DEFAULT_REAL_CONFIG + irpjAdicional DEFAULT_REAL_CONFIG + csll DEFAULT_REAL_CONFIG \<le> 100
   \<and> totalTax (calculateReal scenarioData SERVICO_ANEXO_III DEFAULT_REAL_CONFIG defaultLalur)
       \<le> totalTax (calculateReal scenarioData SERVICO_ANEXO_III
             (setRate F_iss 10 DEFAULT_REAL_CONFIG) defaultLalur)"
proof -
  have d: "dataNonneg scenarioData"
    by (simp add: dataNonneg_def scenarioData_def zeroData_def)
  have p: "ratesNonneg DEFAULT_PRESUMIDO_CONFIG" "getRate F_iss DEFAULT_PRESUMIDO_CONFIG \<le> 10"
    by (simp_all add: ratesNonneg_def DEFAULT_PRESUMIDO_CONFIG_def)
  have r: "ratesNonneg DEFAULT_REAL_CONFIG" "getRate F_iss DEFAULT_REAL_CONFIG \<le> 10"
    "irpj DEFAULT_REAL_CONFIG + irpjAdicional DEFAULT_REAL_CONFIG + csll DEFAULT_REAL_CONFIG \<le> 100"
    by (simp_all add: ratesNonneg_def DEFAULT_REAL_CONFIG_def)
  from C9_total_tax_monotone_in_rates
    [of scenarioData DEFAULT_PRESUMIDO_CONFIG F_iss 10 SERVICO_ANEXO_III defaultLalur] d p
  have "totalTax (calculatePresumido scenarioData SERVICO_ANEXO_III DEFAULT_PRESUMIDO_CONFIG)
       \<le> totalTax (calculatePresumido scenarioData SERVICO_ANEXO_III
             (setRate F_iss 10 DEFAULT_PRESUMIDO_CONFIG))"
    by blast
  moreover from C9_total_tax_monotone_in_rates
    [of scenarioData DEFAULT_REAL_CONFIG F_iss 10 SERVICO_ANEXO_III defaultLalur] d r
  have "totalTax (calculateReal scenarioData SERVICO_ANEXO_III DEFAULT_REAL_CONFIG defaultLalur)
       \<le> totalTax (calculateReal scenarioData SERVICO_ANEXO_III
             (setRate F_iss 10 DEFAULT_REAL_CONFIG) defaultLalur)"
    by blast
  ultimately show ?thesis using d p r by blast
qed

theorem C9_high_income_rates_counterexample:
  "getRate F_iss highIncomeRatesConfig \<le> 10
   \<and> totalTax (calculateReal revenueOnlyData SERVICO_ANEXO_III highIncomeRatesConfig defaultLalur)
       = 1147500
   \<and> totalTax (calculateReal revenueOnlyData SERVICO_ANEXO_III
        (setRate F_iss 10 highIncomeRatesConfig) defaultLalur)
       = 1137500
   \<and> totalTax (calculateReal revenueOnlyData SERVICO_ANEXO_III
        (setRate F_iss 10 highIncomeRatesConfig) defaultLalur)
       < totalTax (calculateReal revenueOnlyData SERVICO_ANEXO_III highIncomeRatesConfig defaultLalur)
   \<and> getRate F_presuncaoIRPJ negativeIrpjConfig \<le> 40
   \<and> totalTax (calculatePresumido revenueOnlyData SERVICO_ANEXO_III
        (setRate F_presuncaoIRPJ 40 negativeIrpjConfig))
       < totalTax (calculatePresumido revenueOnlyData SERVICO_ANEXO_III negativeIrpjConfig)
   \<and> getRate F_cpp DEFAULT_PRESUMIDO_CONFIG \<le> 30
   \<and> totalTax (calculatePresumido negativePayrollData SERVICO_ANEXO_III
        (setRate F_cpp 30 DEFAULT_PRESUMIDO_CONFIG))
       < totalTax (calculatePresumido negativePayrollData SERVICO_ANEXO_III DEFAULT_PRESUMIDO_CONFIG)"
proof -
  have "getRate F_iss highIncomeRatesConfig \<le> 10"
      "totalTax (calculateReal revenueOnlyData SERVICO_ANEXO_III highIncomeRatesConfig defaultLalur)
         = 1147500"
      "totalTax (calculateReal revenueOnlyData SERVICO_ANEXO_III
          (setRate F_iss 10 highIncomeRatesConfig) defaultLalur)
         = 1137500"
    by (simp_all add: real_stages revenueOnlyData_def zeroData_def highIncomeRatesConfig_def
        DEFAULT_REAL_CONFIG_def defaultLalur_def THRESHOLD_ADICIONAL_IRPJ_def js_or0_def)
  moreover have "getRate F_presuncaoIRPJ negativeIrpjConfig \<le> 40"
      "totalTax (calculatePresumido revenueOnlyData SERVICO_ANEXO_III
          (setRate F_presuncaoIRPJ 40 negativeIrpjConfig)) = 71300"
      "totalTax (calculatePresumido revenueOnlyData SERVICO_ANEXO_III negativeIrpjConfig) = 75300"
    by (simp_all add: presumido_stages revenueOnlyData_def zeroData_def negativeIrpjConfig_def
        DEFAULT_PRESUMIDO_CONFIG_def THRESHOLD_ADICIONAL_IRPJ_def)
  moreover have "getRate F_cpp DEFAULT_PRESUMIDO_CONFIG \<le> 30"
      "totalTax (calculatePresumido negativePayrollData SERVICO_ANEXO_III
          (setRate F_cpp 30 DEFAULT_PRESUMIDO_CONFIG)) = - 458"
      "totalTax (calculatePresumido negativePayrollData SERVICO_ANEXO_III DEFAULT_PRESUMIDO_CONFIG)
         = - 358"
    by (simp_all add: presumido_stages negativePayrollData_def zeroData_def
        DEFAULT_PRESUMIDO_CONFIG_def THRESHOLD_ADICIONAL_IRPJ_def)
  ultimately show ?thesis by simp
qed

end
